(* ===== verification/Prelude.thy ===== *)
theory Prelude
  imports Main "HOL-Library.Char_ord" "HOL-Library.List_Lexorder" "HOL-Library.Multiset"
begin

text \<open>
  Shared vocabulary of the development: the Python errors the program can raise, the
  path type of the file-system model, the named collections of rewrite rules the
  component theories add to, and generic lemmas on lists that several components use.
\<close>

named_theorems text_block_simps "rewrite rules about normalised text blocks"
named_theorems spine_simps "rewrite rules about the spine resolver"

text \<open>
  The exceptions the program raises or lets through.  \<open>UsageError\<close> is argparse's
  \<open>parser.error\<close> (message printed, exit status 2); \<open>ValueError\<close> is the one
  \<open>convert_directory\<close> raises itself; the others come from the file system or from
  the EPUB reader and are propagated unchanged.
\<close>

datatype py_error =
    UsageError string
  | ValueError string
  | FileExistsError
  | FileNotFoundError
  | IsADirectoryError
  | NotADirectoryError
  | EpubReadError string

text \<open>
  A path is the list of its components, as \<open>pathlib\<close> keeps them in \<open>parts\<close>:
  \<open>p / name\<close> is \<open>p @ [name]\<close>, \<open>p.parent\<close> is \<open>butlast p\<close>, \<open>p.name\<close> is
  \<open>last p\<close>.
\<close>

type_synonym path = "string list"

subsection \<open>Generic list lemmas\<close>

lemma dropWhile_idem [simp]: "dropWhile P (dropWhile P xs) = dropWhile P xs"
  by (induction xs) auto

lemma dropWhile_hd_not:
  "dropWhile P xs \<noteq> [] \<Longrightarrow> \<not> P (hd (dropWhile P xs))"
  by (induction xs) auto

lemma dropWhile_all_eq_Nil: "(\<forall>x\<in>set xs. P x) \<Longrightarrow> dropWhile P xs = []"
  by (induction xs) auto

lemma dropWhile_append_all:
  "(\<forall>x\<in>set xs. P x) \<Longrightarrow> dropWhile P (xs @ ys) = dropWhile P ys"
  by (induction xs) auto

lemma dropWhile_append_not:
  "xs \<noteq> [] \<Longrightarrow> \<not> P (hd xs) \<Longrightarrow> dropWhile P (xs @ ys) = xs @ ys"
  by (cases xs) auto

lemma set_dropWhile_sub: "set (dropWhile P xs) \<subseteq> set xs"
  by (induction xs) auto

lemma distinct_map_distinct: "distinct (map f xs) \<Longrightarrow> distinct xs"
  by (simp add: distinct_map)

end
