(* ===== verification/Py_Str.thy ===== *)
theory Py_Str
  imports Prelude
begin

text \<open>
  The Python \<open>str\<close> operations the converter calls, on strings as lists of
  \<open>char\<close>: \<open>isspace\<close>, \<open>strip\<close>, \<open>splitlines\<close>, \<open>sep.join\<close> and
  \<open>lower\<close>.  A \<open>char\<close> is read as the code point \<open>of_char c\<close>, so the model's
  alphabet is U+0000 to U+00FF (Latin-1); the two line separators beyond it
  (U+2028, U+2029) and the Unicode spaces beyond it are outside the model.
  Each definition follows CPython's rule for that alphabet.
\<close>

subsection \<open>Character classes\<close>

text \<open>\<open>str.isspace\<close> on U+0000..U+00FF: TAB, LF, VT, FF, CR, the separators
  U+001C..U+001F, SPACE, NEL (U+0085) and NO-BREAK SPACE (U+00A0).\<close>

definition py_whitespace :: "char list" where
  "py_whitespace = [CHR 0x09, CHR 0x0A, CHR 0x0B, CHR 0x0C, CHR 0x0D, CHR 0x1C, CHR 0x1D,
                    CHR 0x1E, CHR 0x1F, CHR 0x20, CHR 0x85, CHR 0xA0]"

definition py_isspace :: "char \<Rightarrow> bool" where
  "py_isspace c \<longleftrightarrow> c \<in> set py_whitespace"

text \<open>The line boundaries of \<open>str.splitlines\<close> on the same alphabet: LF, VT, FF, CR,
  the separators U+001C..U+001E and NEL.  (U+001F is whitespace but no line boundary.)\<close>

definition py_linebreaks :: "char list" where
  "py_linebreaks = [CHR 0x0A, CHR 0x0B, CHR 0x0C, CHR 0x0D, CHR 0x1C, CHR 0x1D, CHR 0x1E, CHR 0x85]"

definition py_is_linebreak :: "char \<Rightarrow> bool" where
  "py_is_linebreak c \<longleftrightarrow> c \<in> set py_linebreaks"

subsection \<open>strip\<close>

definition py_strip :: "string \<Rightarrow> string" where
  "py_strip s = rev (dropWhile py_isspace (rev (dropWhile py_isspace s)))"

text \<open>What \<open>strip\<close> returns: empty, or starting and ending with a non-space.\<close>

definition is_stripped :: "string \<Rightarrow> bool" where
  "is_stripped s \<longleftrightarrow> s = [] \<or> (\<not> py_isspace (hd s) \<and> \<not> py_isspace (last s))"

definition all_space :: "string \<Rightarrow> bool" where
  "all_space s \<longleftrightarrow> (\<forall>c\<in>set s. py_isspace c)"

subsection \<open>sep.join\<close>

fun py_join :: "string \<Rightarrow> string list \<Rightarrow> string" where
  "py_join sep [] = []"
| "py_join sep [x] = x"
| "py_join sep (x # y # zs) = x @ sep @ py_join sep (y # zs)"

subsection \<open>splitlines\<close>

text \<open>
  CPython scans for the next line boundary, takes a CR LF pair as one boundary, appends
  the text before the boundary, and appends a last piece only when text follows the
  last boundary: \<open>''a\<newline>''\<close> gives one line, \<open>''''\<close> none.  \<open>cur\<close> is the
  current line, \<open>s\<close> the rest of the input.
\<close>

fun splitlines_from :: "string \<Rightarrow> string \<Rightarrow> string list" where
  "splitlines_from cur [] = (if cur = [] then [] else [cur])"
| "splitlines_from cur (c # s) =
     (if py_is_linebreak c
      then cur # splitlines_from [] (if c = CHR 0x0D \<and> s \<noteq> [] \<and> hd s = CHR 0x0A then tl s else s)
      else splitlines_from (cur @ [c]) s)"

definition py_splitlines :: "string \<Rightarrow> string list" where
  "py_splitlines s = splitlines_from [] s"

text \<open>A line as \<open>splitlines\<close> returns it: no line boundary inside.\<close>

definition no_linebreak :: "string \<Rightarrow> bool" where
  "no_linebreak s \<longleftrightarrow> (\<forall>c\<in>set s. \<not> py_is_linebreak c)"

subsection \<open>lower\<close>

text \<open>\<open>str.lower\<close> on U+0000..U+00FF: A..Z and U+00C0..U+00DE except U+00D7 move
  up by 32; every other character is its own lower case.\<close>

definition py_lower_char :: "char \<Rightarrow> char" where
  "py_lower_char c =
     (let n = (of_char c :: nat)
      in if (65 \<le> n \<and> n \<le> 90) \<or> (192 \<le> n \<and> n \<le> 222 \<and> n \<noteq> 215) then char_of (n + 32) else c)"

definition py_lower :: "string \<Rightarrow> string" where
  "py_lower s = map py_lower_char s"

subsection \<open>Lemmas: splitlines and join\<close>

lemma linebreak_isspace: "py_is_linebreak c \<Longrightarrow> py_isspace c"
  by (auto simp: py_is_linebreak_def py_linebreaks_def py_isspace_def py_whitespace_def)

lemma LF_linebreak [simp]: "py_is_linebreak CHR 0x0A"
  by (simp add: py_is_linebreak_def py_linebreaks_def)

lemma splitlines_from_append_plain:
  "no_linebreak x \<Longrightarrow> splitlines_from cur (x @ rest) = splitlines_from (cur @ x) rest"
  by (induction x arbitrary: cur) (auto simp: no_linebreak_def)

lemma splitlines_from_LF:
  "splitlines_from cur (CHR 0x0A # rest) = cur # splitlines_from [] rest"
  by simp

lemma splitlines_from_plain:
  "no_linebreak x \<Longrightarrow> splitlines_from cur x = (if cur @ x = [] then [] else [cur @ x])"
  using splitlines_from_append_plain [of x cur "[]"] by simp

lemma splitlines_join_LF:
  "\<forall>l\<in>set ls. no_linebreak l \<Longrightarrow> ls = [] \<or> last ls \<noteq> [] \<Longrightarrow>
   py_splitlines (py_join ''\<newline>'' ls) = ls"
proof (induction "''\<newline>''" ls rule: py_join.induct)
  case 1
  then show ?case by (simp add: py_splitlines_def)
next
  case (2 x)
  then show ?case by (simp add: py_splitlines_def splitlines_from_plain)
next
  case (3 x y zs)
  then have "py_splitlines (py_join ''\<newline>'' (y # zs)) = y # zs" by simp
  with "3.prems" show ?case
    by (simp add: py_splitlines_def splitlines_from_append_plain)
qed

lemma splitlines_from_no_linebreak:
  "no_linebreak cur \<Longrightarrow> l \<in> set (splitlines_from cur s) \<Longrightarrow> no_linebreak l"
proof (induction cur s rule: splitlines_from.induct)
  case (1 cur)
  then show ?case by (simp split: if_splits)
next
  case (2 cur c s)
  show ?case
  proof (cases "py_is_linebreak c")
    case True
    let ?s' = "if c = CHR 0x0D \<and> s \<noteq> [] \<and> hd s = CHR 0x0A then tl s else s"
    from True have "splitlines_from cur (c # s) = cur # splitlines_from [] ?s'"
      by simp
    with "2.prems" have "l = cur \<or> l \<in> set (splitlines_from [] ?s')"
      by simp
    with True "2.prems"(1) "2.IH"(1) show ?thesis
      by (auto simp: no_linebreak_def)
  next
    case False
    with "2.prems" "2.IH"(2) show ?thesis
      by (simp add: no_linebreak_def)
  qed
qed

lemma splitlines_no_linebreak:
  "l \<in> set (py_splitlines s) \<Longrightarrow> no_linebreak l"
  unfolding py_splitlines_def
  by (rule splitlines_from_no_linebreak) (simp_all add: no_linebreak_def)

subsection \<open>Lemmas: strip\<close>

lemma py_strip_decomp:
  assumes w1: "all_space w1" and w2: "all_space w2" and a: "is_stripped a"
  shows "py_strip (w1 @ a @ w2) = a"
proof (cases "a = []")
  case True
  have d: "dropWhile py_isspace w2 = []"
    using w2 dropWhile_all_eq_Nil unfolding all_space_def by blast
  from True w1 show ?thesis
    by (simp add: py_strip_def all_space_def dropWhile_append2 d)
next
  case False
  then obtain c cs where ac: "a = c # cs" by (cases a) auto
  from a False have hc: "\<not> py_isspace c" and hl: "\<not> py_isspace (last a)"
    by (auto simp: is_stripped_def ac)
  have d1: "dropWhile py_isspace (w1 @ a @ w2) = a @ w2"
    using w1 hc by (simp add: all_space_def dropWhile_append2 ac)
  have ra: "rev a = last a # rev (butlast a)"
    using False by (metis append_butlast_last_id rev_eq_Cons_iff rev_rev_ident)
  have "dropWhile py_isspace (rev (a @ w2)) = dropWhile py_isspace (rev a)"
    using w2 dropWhile_append_all [of "rev w2" py_isspace "rev a"]
    by (simp add: all_space_def)
  also have "\<dots> = rev a"
    using hl ra by (metis dropWhile.simps(2))
  finally have "dropWhile py_isspace (rev (a @ w2)) = rev a" .
  with d1 show ?thesis by (simp add: py_strip_def)
qed

lemma py_strip_exists_decomp:
  "\<exists>w1 w2. s = w1 @ py_strip s @ w2 \<and> all_space w1 \<and> all_space w2 \<and> is_stripped (py_strip s)"
proof -
  let ?P = py_isspace
  let ?r = "dropWhile ?P s"
  let ?w1 = "takeWhile ?P s"
  let ?w2 = "rev (takeWhile ?P (rev ?r))"
  let ?m = "rev (dropWhile ?P (rev ?r))"
  have s1: "s = ?w1 @ ?r" by simp
  have "rev ?r = takeWhile ?P (rev ?r) @ dropWhile ?P (rev ?r)" by simp
  then have s2: "?r = ?m @ ?w2" by (metis rev_append rev_rev_ident)
  have m: "py_strip s = ?m" by (simp add: py_strip_def)
  have aw1: "all_space ?w1" by (auto simp: all_space_def dest: set_takeWhileD)
  have aw2: "all_space ?w2" by (auto simp: all_space_def dest: set_takeWhileD)
  have st: "is_stripped ?m"
  proof (cases "?m = []")
    case True then show ?thesis by (simp add: is_stripped_def)
  next
    case False
    then have ne: "dropWhile ?P (rev ?r) \<noteq> []" by simp
    have l: "\<not> ?P (last ?m)"
      using dropWhile_hd_not [OF ne] ne by (simp add: last_rev)
    have rne: "?r \<noteq> []" using ne by (metis dropWhile.simps(1) rev.simps(1))
    have "hd ?m = hd ?r" using s2 False by (metis hd_append2)
    moreover have "\<not> ?P (hd ?r)" using dropWhile_hd_not rne by blast
    ultimately show ?thesis using l by (simp add: is_stripped_def)
  qed
  show ?thesis using s1 s2 m aw1 aw2 st by (metis append.assoc)
qed

lemma py_strip_stripped: "is_stripped (py_strip s)"
  using py_strip_exists_decomp by blast

lemma py_strip_id: "is_stripped s \<Longrightarrow> py_strip s = s"
  using py_strip_decomp [of "[]" "[]" s] by (simp add: all_space_def)

lemma py_strip_idem: "py_strip (py_strip s) = py_strip s"
  by (rule py_strip_id [OF py_strip_stripped])

lemma set_py_strip: "set (py_strip s) \<subseteq> set s"
  using py_strip_exists_decomp [of s] by (metis set_append sup_ge1 sup_ge2 subset_trans)

lemma py_strip_Nil_iff: "py_strip s = [] \<longleftrightarrow> all_space s"
  using py_strip_exists_decomp [of s]
  by (metis all_space_def append_Nil Un_iff set_append py_strip_decomp is_stripped_def)
subsection \<open>Lemmas: join\<close>

lemma py_join_snoc:
  "xs \<noteq> [] \<Longrightarrow> py_join sep (xs @ [y]) = py_join sep xs @ sep @ y"
  by (induction sep xs rule: py_join.induct) auto

lemma py_join_Cons:
  "xs \<noteq> [] \<Longrightarrow> py_join sep (x # xs) = x @ sep @ py_join sep xs"
  by (cases xs) auto

lemma hd_py_join:
  "xs \<noteq> [] \<Longrightarrow> hd xs \<noteq> [] \<Longrightarrow> hd (py_join sep xs) = hd (hd xs)"
  by (induction sep xs rule: py_join.induct) auto

lemma last_py_join:
  assumes "xs \<noteq> []" "last xs \<noteq> []"
  shows "last (py_join sep xs) = last (last xs)"
proof (cases "butlast xs = []")
  case True
  with assms(1) have "xs = [last xs]"
    by (metis append_butlast_last_id append_Nil)
  then show ?thesis by (metis py_join.simps(2))
next
  case False
  have "py_join sep xs = py_join sep (butlast xs) @ sep @ last xs"
    using py_join_snoc [OF False] assms(1) by (metis append_butlast_last_id)
  with assms(2) show ?thesis by simp
qed

lemma py_join_Nil_iff: "py_join sep xs = [] \<Longrightarrow> xs = [] \<or> (xs \<noteq> [] \<and> hd xs = [])"
  by (induction sep xs rule: py_join.induct) auto

lemma is_stripped_py_join:
  assumes "xs \<noteq> []" "hd xs \<noteq> []" "last xs \<noteq> []"
    and "is_stripped (hd xs)" "is_stripped (last xs)"
  shows "is_stripped (py_join sep xs)"
proof -
  have "py_join sep xs \<noteq> []"
    using assms(1,2) py_join_Nil_iff by blast
  with assms show ?thesis
    by (simp add: is_stripped_def hd_py_join last_py_join)
qed

end
