(* ===== verification/Soup.thy ===== *)
theory Soup
  imports Py_Str
begin

text \<open>
  The parsed HTML document that \<open>BeautifulSoup(content, "html.parser")\<close> returns
  (\<open>src/epub_to_txt.py\<close> line 54), reduced to what the normaliser observes: text
  strings, strings of the kinds \<open>get_text\<close> skips, and elements with their tag name,
  their class list and their children.  The parser itself is an external collaborator
  and is not modelled; a document is the list of top-level nodes of the soup.
\<close>

datatype node =
    NText string
    \<comment> \<open>a \<open>NavigableString\<close> or \<open>CData\<close>: the kinds \<open>get_text\<close> extracts\<close>
  | NOther string
    \<comment> \<open>a \<open>Comment\<close>, \<open>Doctype\<close>, \<open>Declaration\<close>, processing instruction, or
        the text of a \<open>script\<close>/\<open>style\<close>/\<open>template\<close>: skipped by \<open>get_text\<close>\<close>
  | NElem string "string list" "node list"
    \<comment> \<open>a \<open>Tag\<close>: name, the values of its \<open>class\<close> attribute, children\<close>

type_synonym soup = "node list"

text \<open>
  Lines 11--12: \<open>for spacer in soup.select(".empty-line"): spacer.string = "\n"\<close>.
  \<open>select\<close> returns the elements whose class list holds \<open>empty-line\<close> in document
  order; the \<open>string\<close> setter clears an element's children and appends one string
  \<open>"\n"\<close>.  An outer spacer is handled before the spacers inside it, and clearing it
  detaches them, so the loop's effect on the tree is one top-down pass that replaces
  each outermost spacer's children.
\<close>

fun mark_spacer :: "node \<Rightarrow> node" where
  "mark_spacer (NElem tag cls cs) =
     (if ''empty-line'' \<in> set cls then NElem tag cls [NText ''\<newline>'']
      else NElem tag cls (map mark_spacer cs))"
| "mark_spacer n = n"

definition mark_spacers :: "soup \<Rightarrow> soup" where
  "mark_spacers d = map mark_spacer d"

text \<open>
  Line 14: \<open>soup.get_text(separator="\n", strip=False)\<close> joins every extractable
  string of the document, in document order, with the separator; with
  \<open>strip=False\<close> no string is stripped or dropped, empty ones included.
\<close>

fun node_strings :: "node \<Rightarrow> string list" where
  "node_strings (NText s) = [s]"
| "node_strings (NOther s) = []"
| "node_strings (NElem tag cls cs) = concat (map node_strings cs)"

definition get_text :: "string \<Rightarrow> soup \<Rightarrow> string" where
  "get_text sep d = py_join sep (concat (map node_strings d))"

end
