(* ===== verification/Normalizer.thy ===== *)
theory Normalizer
  imports Soup
begin

text \<open>
  The gap-preserving text normaliser, \<open>clean_text_preserving_gaps\<close>
  (\<open>src/epub_to_txt.py\<close> lines 9--29): the spacer rewrite and text extraction of
  \<open>Soup\<close>, then \<open>splitlines\<close>, the blank-collapsing loop over the lines with its
  state (\<open>cleaned\<close>, \<open>previous_blank\<close>) as a record and one step per iteration,
  and the final \<open>"\n".join(cleaned).strip()\<close>.  An abstract specification of the
  loop (strip every line, drop the leading blank ones, collapse each run of blank lines
  to one) is proved equal to it, and the Text Block invariant of the spec is proved of
  every output.
\<close>

subsection \<open>The implementation\<close>

record clean_state =
  cleaned :: "string list"
  previous_blank :: bool

definition clean_init :: clean_state where
  "clean_init = \<lparr>cleaned = [], previous_blank = False\<rparr>"

definition clean_step :: "clean_state \<Rightarrow> string \<Rightarrow> clean_state" where
  "clean_step st line =
     (let stripped = py_strip line in
      if stripped = [] then
        (if cleaned st \<noteq> [] \<and> \<not> previous_blank st
         then st\<lparr>cleaned := cleaned st @ [[]], previous_blank := True\<rparr>
         else st\<lparr>previous_blank := True\<rparr>)
      else st\<lparr>cleaned := cleaned st @ [stripped], previous_blank := False\<rparr>)"

definition clean_lines :: "string list \<Rightarrow> string list" where
  "clean_lines lines = cleaned (fold (\<lambda>line st. clean_step st line) lines clean_init)"

definition normalize_text :: "string \<Rightarrow> string" where
  "normalize_text raw_text = py_strip (py_join ''\<newline>'' (clean_lines (py_splitlines raw_text)))"

definition clean_text_preserving_gaps :: "soup \<Rightarrow> string" where
  "clean_text_preserving_gaps soup = normalize_text (get_text ''\<newline>'' (mark_spacers soup))"

subsection \<open>The abstract specification of the loop\<close>

fun collapse_blanks :: "string list \<Rightarrow> string list" where
  "collapse_blanks [] = []"
| "collapse_blanks [x] = [x]"
| "collapse_blanks (x # y # zs) =
     (if x = [] \<and> y = [] then collapse_blanks (y # zs) else x # collapse_blanks (y # zs))"

definition clean_lines_spec :: "string list \<Rightarrow> string list" where
  "clean_lines_spec lines = collapse_blanks (dropWhile (\<lambda>l. l = []) (map py_strip lines))"

subsection \<open>Text blocks\<close>

text \<open>
  The Text Block of the spec: lines without line boundaries, each stripped, no two
  consecutive empty lines, and no empty first or last line.  \<open>block_lines\<close> is the
  list of lines the normaliser emits: the loop's output less a trailing blank, which
  the final \<open>strip\<close> removes.
\<close>

fun no_double_blank :: "string list \<Rightarrow> bool" where
  "no_double_blank (x # y # zs) = (\<not> (x = [] \<and> y = []) \<and> no_double_blank (y # zs))"
| "no_double_blank _ = True"

definition text_block :: "string list \<Rightarrow> bool" where
  "text_block ls \<longleftrightarrow>
     list_all is_stripped ls \<and> list_all no_linebreak ls \<and> no_double_blank ls \<and>
     (ls = [] \<or> (hd ls \<noteq> [] \<and> last ls \<noteq> []))"

definition drop_trailing_blank :: "string list \<Rightarrow> string list" where
  "drop_trailing_blank ls = (if ls \<noteq> [] \<and> last ls = [] then butlast ls else ls)"

definition block_lines :: "string \<Rightarrow> string list" where
  "block_lines raw_text = drop_trailing_blank (clean_lines (py_splitlines raw_text))"

subsection \<open>The loop implements its specification\<close>

lemma fold_clean_step_nonempty:
  "cleaned st \<noteq> [] \<Longrightarrow> previous_blank st = (last (cleaned st) = []) \<Longrightarrow>
   cleaned (fold (\<lambda>line st. clean_step st line) ls st) =
     butlast (cleaned st) @ collapse_blanks (last (cleaned st) # map py_strip ls)"
proof (induction ls arbitrary: st)
  case Nil
  then show ?case by simp
next
  case (Cons l ls)
  let ?c = "cleaned st"
  show ?case
  proof (cases "py_strip l = []")
    case True
    note blank = True
    show ?thesis
    proof (cases "last ?c = []")
      case True
      with blank Cons.prems have "clean_step st l = st\<lparr>previous_blank := True\<rparr>"
        by (simp add: clean_step_def)
      with Cons.IH [of "st\<lparr>previous_blank := True\<rparr>"] Cons.prems True blank show ?thesis
        by simp
    next
      case False
      with blank Cons.prems have st': "clean_step st l = st\<lparr>cleaned := ?c @ [[]], previous_blank := True\<rparr>"
        by (simp add: clean_step_def)
      let ?st' = "st\<lparr>cleaned := ?c @ [[]], previous_blank := True\<rparr>"
      have IH: "cleaned (fold (\<lambda>line st. clean_step st line) ls ?st') =
                ?c @ collapse_blanks ([] # map py_strip ls)"
        using Cons.IH [of ?st'] by simp
      have "collapse_blanks (last ?c # [] # map py_strip ls) =
            last ?c # collapse_blanks ([] # map py_strip ls)"
        using False by simp
      then have "butlast ?c @ collapse_blanks (last ?c # map py_strip (l # ls)) =
                 ?c @ collapse_blanks ([] # map py_strip ls)"
        using Cons.prems(1) blank by simp
      with IH st' show ?thesis by simp
    qed
  next
    case False
    then have st': "clean_step st l = st\<lparr>cleaned := ?c @ [py_strip l], previous_blank := False\<rparr>"
      by (simp add: clean_step_def Let_def)
    let ?st' = "st\<lparr>cleaned := ?c @ [py_strip l], previous_blank := False\<rparr>"
    have IH: "cleaned (fold (\<lambda>line st. clean_step st line) ls ?st') =
              ?c @ collapse_blanks (py_strip l # map py_strip ls)"
      using Cons.IH [of ?st'] False by simp
    have "butlast ?c @ collapse_blanks (last ?c # map py_strip (l # ls)) =
          ?c @ collapse_blanks (py_strip l # map py_strip ls)"
      using Cons.prems(1) False by simp
    with IH st' show ?thesis by simp
  qed
qed

lemma fold_clean_step_empty:
  "cleaned st = [] \<Longrightarrow>
   cleaned (fold (\<lambda>line st. clean_step st line) ls st) = clean_lines_spec ls"
proof (induction ls arbitrary: st)
  case Nil
  then show ?case by (simp add: clean_lines_spec_def)
next
  case (Cons l ls)
  show ?case
  proof (cases "py_strip l = []")
    case True
    with Cons.prems have "clean_step st l = st\<lparr>previous_blank := True\<rparr>"
      by (simp add: clean_step_def)
    with Cons.IH [of "st\<lparr>previous_blank := True\<rparr>"] Cons.prems True show ?thesis
      by (simp add: clean_lines_spec_def)
  next
    case False
    with Cons.prems have st': "clean_step st l = st\<lparr>cleaned := [py_strip l], previous_blank := False\<rparr>"
      by (simp add: clean_step_def Let_def)
    have "cleaned (fold (\<lambda>line st. clean_step st line) ls (st\<lparr>cleaned := [py_strip l], previous_blank := False\<rparr>))
          = collapse_blanks (py_strip l # map py_strip ls)"
      using fold_clean_step_nonempty [of "st\<lparr>cleaned := [py_strip l], previous_blank := False\<rparr>" ls] False
      by simp
    with st' False show ?thesis by (simp add: clean_lines_spec_def)
  qed
qed

lemma clean_lines_eq_spec: "clean_lines lines = clean_lines_spec lines"
  unfolding clean_lines_def by (rule fold_clean_step_empty) (simp add: clean_init_def)

subsection \<open>Every output is a text block\<close>

lemma set_collapse_blanks: "set (collapse_blanks xs) \<subseteq> set xs"
  by (induction xs rule: collapse_blanks.induct) auto

lemma collapse_blanks_hd:
  "xs \<noteq> [] \<Longrightarrow> collapse_blanks xs \<noteq> [] \<and> hd (collapse_blanks xs) = hd xs"
  by (induction xs rule: collapse_blanks.induct) auto

lemma collapse_blanks_last:
  "xs \<noteq> [] \<Longrightarrow> last (collapse_blanks xs) = last xs"
  by (induction xs rule: collapse_blanks.induct) (auto simp: collapse_blanks_hd)

lemma no_double_blank_Cons:
  "no_double_blank (x # xs) \<longleftrightarrow> no_double_blank xs \<and> (xs \<noteq> [] \<longrightarrow> \<not> (x = [] \<and> hd xs = []))"
  by (cases xs) auto

lemma no_double_blank_collapse: "no_double_blank (collapse_blanks xs)"
proof (induction xs rule: collapse_blanks.induct)
  case (3 x y zs)
  then show ?case
    using collapse_blanks_hd [of "y # zs"] by (auto simp: no_double_blank_Cons)
qed simp_all

lemma collapse_blanks_id: "no_double_blank xs \<Longrightarrow> collapse_blanks xs = xs"
  by (induction xs rule: collapse_blanks.induct) auto

lemma no_double_blank_appendD: "no_double_blank (xs @ ys) \<Longrightarrow> no_double_blank xs"
  by (induction xs rule: no_double_blank.induct) auto

lemma clean_lines_props:
  fixes lines :: "string list"
  defines "C \<equiv> clean_lines lines"
  shows "list_all is_stripped C" and "no_double_blank C" and "C = [] \<or> hd C \<noteq> []"
    and "list_all no_linebreak lines \<Longrightarrow> list_all no_linebreak C"
proof -
  let ?d = "dropWhile (\<lambda>l. l = []) (map py_strip lines)"
  have C: "C = collapse_blanks ?d"
    by (simp add: C_def clean_lines_eq_spec clean_lines_spec_def)
  have sub: "set C \<subseteq> set ?d" using C set_collapse_blanks by blast
  also have "\<dots> \<subseteq> py_strip ` set lines"
    using set_dropWhile_sub by fastforce
  finally have sub2: "set C \<subseteq> py_strip ` set lines" .
  then show "list_all is_stripped C"
    using py_strip_stripped by (auto simp: list_all_iff)
  show "no_double_blank C" using C no_double_blank_collapse by simp
  show "C = [] \<or> hd C \<noteq> []"
  proof (cases "?d = []")
    case True
    have "collapse_blanks [] = []" by simp
    with True C show ?thesis by metis
  next
    case False
    then have "hd ?d \<noteq> []" using dropWhile_hd_not by blast
    with False show ?thesis using C collapse_blanks_hd by metis
  qed
  show "list_all no_linebreak lines \<Longrightarrow> list_all no_linebreak C"
    using sub2 set_py_strip by (fastforce simp: list_all_iff no_linebreak_def)
qed

lemma no_double_blank_snoc_last:
  "no_double_blank (xs @ [[]]) \<Longrightarrow> xs \<noteq> [] \<Longrightarrow> last xs \<noteq> []"
  by (induction xs rule: no_double_blank.induct) (auto split: if_splits)

lemma text_block_stripped_join:
  assumes "text_block ls"
  shows "is_stripped (py_join sep ls)"
proof (cases "ls = []")
  case True
  then show ?thesis by (simp add: is_stripped_def)
next
  case False
  with assms have "hd ls \<noteq> []" "last ls \<noteq> []" "is_stripped (hd ls)" "is_stripped (last ls)"
    by (auto simp: text_block_def list_all_iff)
  with False show ?thesis by (intro is_stripped_py_join)
qed

lemma drop_trailing_blank_block:
  assumes "list_all is_stripped C" "list_all no_linebreak C" "no_double_blank C"
    and "C = [] \<or> hd C \<noteq> []"
  shows "text_block (drop_trailing_blank C)"
proof (cases "C \<noteq> [] \<and> last C = []")
  case True
  define B where "B = butlast C"
  have C: "C = B @ [[]]" using True by (metis B_def append_butlast_last_id)
  have B: "B \<noteq> []" using C assms(4) by (cases B) auto
  have "last B \<noteq> []" using no_double_blank_snoc_last B C assms(3) by blast
  moreover have "hd B \<noteq> []" using C B assms(4) by simp
  moreover have "no_double_blank B" using C assms(3) no_double_blank_appendD by blast
  moreover have "set B \<subseteq> set C" using C by auto
  moreover have "drop_trailing_blank C = B"
    using True by (simp add: drop_trailing_blank_def B_def)
  ultimately show ?thesis using assms(1,2) B
    unfolding text_block_def list_all_iff by auto
next
  case False
  with assms show ?thesis
    by (auto simp: text_block_def drop_trailing_blank_def)
qed

theorem block_lines_text_block: "text_block (block_lines raw_text)"
proof -
  let ?L = "py_splitlines raw_text"
  have "list_all no_linebreak ?L"
    by (simp add: list_all_iff splitlines_no_linebreak)
  then show ?thesis
    unfolding block_lines_def
    using clean_lines_props [of ?L] by (intro drop_trailing_blank_block) auto
qed

theorem normalize_text_join: "normalize_text raw_text = py_join ''\<newline>'' (block_lines raw_text)"
proof -
  let ?C = "clean_lines (py_splitlines raw_text)"
  have blk: "text_block (block_lines raw_text)" by (rule block_lines_text_block)
  show ?thesis
  proof (cases "?C \<noteq> [] \<and> last ?C = []")
    case True
    define B where "B = butlast ?C"
    have C: "?C = B @ [[]]" using True by (metis B_def append_butlast_last_id)
    have bl: "block_lines raw_text = B" using True by (simp add: block_lines_def drop_trailing_blank_def B_def)
    have B: "B \<noteq> []"
      using C clean_lines_props(3) [of "py_splitlines raw_text"] by (cases B) auto
    have j: "py_join ''\<newline>'' ?C = [] @ py_join ''\<newline>'' B @ ''\<newline>''"
      using C py_join_snoc [OF B] by simp
    have "py_strip ([] @ py_join ''\<newline>'' B @ ''\<newline>'') = py_join ''\<newline>'' B"
      using blk bl text_block_stripped_join
      by (intro py_strip_decomp) (auto simp: all_space_def py_isspace_def py_whitespace_def)
    with j bl show ?thesis by (simp add: normalize_text_def)
  next
    case False
    then have bl: "block_lines raw_text = ?C"
      unfolding block_lines_def drop_trailing_blank_def by auto
    with blk text_block_stripped_join py_strip_id show ?thesis
      by (metis normalize_text_def)
  qed
qed

theorem splitlines_normalize_text:
  "py_splitlines (normalize_text raw_text) = block_lines raw_text"
  unfolding normalize_text_join
  using block_lines_text_block [of raw_text]
  by (intro splitlines_join_LF) (auto simp: text_block_def list_all_iff)

lemma clean_lines_text_block: "text_block ls \<Longrightarrow> clean_lines ls = ls"
proof -
  assume b: "text_block ls"
  then have "map py_strip ls = ls"
    by (auto simp: text_block_def list_all_iff py_strip_id intro: map_idI)
  moreover have "dropWhile (\<lambda>l. l = []) ls = ls"
    using b by (cases ls) (auto simp: text_block_def)
  ultimately show ?thesis
    using b by (simp add: clean_lines_eq_spec clean_lines_spec_def text_block_def collapse_blanks_id)
qed

theorem normalize_text_idem: "normalize_text (normalize_text raw_text) = normalize_text raw_text"
proof -
  have b: "text_block (block_lines raw_text)" by (rule block_lines_text_block)
  then have "drop_trailing_blank (block_lines raw_text) = block_lines raw_text"
    by (auto simp: drop_trailing_blank_def text_block_def)
  with b have "block_lines (normalize_text raw_text) = block_lines raw_text"
    by (simp add: block_lines_def [of "normalize_text raw_text"] splitlines_normalize_text
        clean_lines_text_block)
  then show ?thesis by (simp add: normalize_text_join)
qed

subsection \<open>Gaps: markers, whitespace and adjacent paragraphs\<close>

lemma all_space_Nil [simp]: "all_space []"
  by (simp add: all_space_def)

lemma linebreak_all_space_prefix:
  "all_space w \<Longrightarrow> all_space cur \<Longrightarrow>
   \<exists>M. M \<noteq> [] \<and> list_all all_space M \<and>
       splitlines_from cur (w @ CHR 0x0A # rest) = M @ splitlines_from [] rest"
proof (induction "length w" arbitrary: w cur rule: less_induct)
  case less
  show ?case
  proof (cases w)
    case Nil
    then show ?thesis using less.prems by (intro exI [of _ "[cur]"]) simp
  next
    case (Cons c w')
    have c: "py_isspace c" and w': "all_space w'" using less.prems Cons by (auto simp: all_space_def)
    show ?thesis
    proof (cases "py_is_linebreak c")
      case False
      have "all_space (cur @ [c])" using less.prems(2) c by (simp add: all_space_def)
      then obtain M where "M \<noteq> [] \<and> list_all all_space M \<and>
          splitlines_from (cur @ [c]) (w' @ CHR 0x0A # rest) = M @ splitlines_from [] rest"
        using less.hyps [of w' "cur @ [c]"] w' Cons by auto
      with False Cons show ?thesis by auto
    next
      case True
      show ?thesis
      proof (cases "c = CHR 0x0D \<and> w' \<noteq> [] \<and> hd w' = CHR 0x0A")
        case crlf: True
        then obtain w'' where w'': "w' = CHR 0x0A # w''" by (cases w') auto
        have "all_space w''" using w' w'' by (simp add: all_space_def)
        then obtain M where M: "M \<noteq> [] \<and> list_all all_space M \<and>
            splitlines_from [] (w'' @ CHR 0x0A # rest) = M @ splitlines_from [] rest"
          using less.hyps [of w'' "[]"] Cons w'' by auto
        show ?thesis
          using True crlf Cons w'' M less.prems(2) by (intro exI [of _ "cur # M"]) simp
      next
        case nocrlf: False
        show ?thesis
        proof (cases "c = CHR 0x0D \<and> w' = []")
          case True
          with Cons less.prems(2) show ?thesis
            by (intro exI [of _ "[cur]"]) (simp add: py_is_linebreak_def py_linebreaks_def)
        next
          case False
          then have skip: "(if c = CHR 0x0D \<and> w' @ CHR 0x0A # rest \<noteq> [] \<and> hd (w' @ CHR 0x0A # rest) = CHR 0x0A
                 then tl (w' @ CHR 0x0A # rest) else w' @ CHR 0x0A # rest) = w' @ CHR 0x0A # rest"
            using nocrlf by (cases w') auto
          obtain M where M: "M \<noteq> [] \<and> list_all all_space M \<and>
              splitlines_from [] (w' @ CHR 0x0A # rest) = M @ splitlines_from [] rest"
            using less.hyps [of w' "[]"] Cons w' by auto
          show ?thesis
            using True Cons M less.prems(2) skip by (intro exI [of _ "cur # M"]) simp
        qed
      qed
    qed
  qed
qed

lemma collapse_blanks_run:
  "z \<noteq> [] \<Longrightarrow> collapse_blanks ([] # replicate n [] @ z # zs) = [] # collapse_blanks (z # zs)"
  by (induction n) auto

lemma map_strip_all_space:
  "list_all all_space M \<Longrightarrow> map py_strip M = replicate (length M) []"
  by (induction M) (auto simp: py_strip_Nil_iff)

lemma not_all_space_strip: "\<not> all_space a \<Longrightarrow> py_strip a \<noteq> []"
  by (simp add: py_strip_Nil_iff)

lemma normalize_gap_lines:
  assumes L: "py_splitlines raw_text = a # M @ [b]" and M: "M \<noteq> []" "list_all all_space M"
    and a: "\<not> all_space a" and b: "\<not> all_space b"
  shows "normalize_text raw_text = py_strip a @ ''\<newline>\<newline>'' @ py_strip b"
proof -
  obtain n where n: "length M = Suc n" using M(1) by (cases M) auto
  have "map py_strip (a # M @ [b]) = py_strip a # [] # replicate n [] @ [py_strip b]"
    using map_strip_all_space [OF M(2)] n by simp
  then have "clean_lines_spec (a # M @ [b]) = [py_strip a, [], py_strip b]"
    using not_all_space_strip [OF a] not_all_space_strip [OF b]
    by (simp add: clean_lines_spec_def collapse_blanks_run)
  then have "block_lines raw_text = [py_strip a, [], py_strip b]"
    using L not_all_space_strip [OF b]
    by (simp add: block_lines_def clean_lines_eq_spec drop_trailing_blank_def)
  then show ?thesis by (simp add: normalize_text_join)
qed

lemma no_linebreak_all_space_nonempty:
  "no_linebreak b \<Longrightarrow> \<not> all_space b \<Longrightarrow> splitlines_from [] b = [b]"
  using splitlines_from_plain [of b "[]"] by (auto simp: all_space_def)

lemma splitlines_para_space_para:
  assumes "no_linebreak a" "no_linebreak b" "\<not> all_space b" "all_space w"
  shows "\<exists>M. M \<noteq> [] \<and> list_all all_space M \<and>
           py_splitlines (a @ CHR 0x0A # w @ CHR 0x0A # b) = a # M @ [b]"
proof -
  obtain M where M: "M \<noteq> []" "list_all all_space M"
      "splitlines_from [] (w @ CHR 0x0A # b) = M @ splitlines_from [] b"
    using linebreak_all_space_prefix [OF assms(4), of "[]" b] by auto
  have "py_splitlines (a @ CHR 0x0A # w @ CHR 0x0A # b) = a # M @ [b]"
    using assms M
    by (simp add: py_splitlines_def splitlines_from_append_plain no_linebreak_all_space_nonempty)
  with M show ?thesis by blast
qed

text \<open>C11. A gap marker between two one-line paragraphs yields exactly one blank line between their stripped texts, whatever the marker's tag and content.\<close>

theorem gap_marker_one_blank_line:
  assumes "no_linebreak a" "no_linebreak b" "\<not> all_space a" "\<not> all_space b"
    and "''empty-line'' \<notin> set pc" "''empty-line'' \<notin> set qc" "''empty-line'' \<in> set cls"
  shows "clean_text_preserving_gaps [NElem p pc [NText a], NElem t cls cs, NElem q qc [NText b]] =
         py_strip a @ ''\<newline>\<newline>'' @ py_strip b"
proof -
  have "get_text ''\<newline>'' (mark_spacers [NElem p pc [NText a], NElem t cls cs, NElem q qc [NText b]]) =
        a @ CHR 0x0A # ''\<newline>'' @ CHR 0x0A # b"
    using assms(5-7) by (simp add: mark_spacers_def get_text_def)
  moreover obtain M where "M \<noteq> []" "list_all all_space M"
      "py_splitlines (a @ CHR 0x0A # ''\<newline>'' @ CHR 0x0A # b) = a # M @ [b]"
    using splitlines_para_space_para [OF assms(1,2,4), of "''\<newline>''"]
    by (auto simp: all_space_def py_isspace_def py_whitespace_def)
  ultimately show ?thesis
    using normalize_gap_lines assms(3,4) by (simp add: clean_text_preserving_gaps_def)
qed

text \<open>C25. A whitespace-only text node between two paragraphs (the inter-tag whitespace of ordinary markup) gives the same output as an explicit gap marker: the normaliser cannot tell incidental from intentional gaps.\<close>

theorem whitespace_node_acts_as_marker:
  assumes "no_linebreak a" "no_linebreak b" "\<not> all_space a" "\<not> all_space b" "all_space w"
    and "''empty-line'' \<notin> set pc" "''empty-line'' \<notin> set qc"
  shows "clean_text_preserving_gaps [NElem p pc [NText a], NText w, NElem q qc [NText b]] =
         clean_text_preserving_gaps [NElem p pc [NText a], NElem ''div'' [''empty-line''] [], NElem q qc [NText b]]"
proof -
  have "get_text ''\<newline>'' (mark_spacers [NElem p pc [NText a], NText w, NElem q qc [NText b]]) =
        a @ CHR 0x0A # w @ CHR 0x0A # b"
    using assms(6,7) by (simp add: mark_spacers_def get_text_def)
  moreover obtain M where "M \<noteq> []" "list_all all_space M"
      "py_splitlines (a @ CHR 0x0A # w @ CHR 0x0A # b) = a # M @ [b]"
    using splitlines_para_space_para [OF assms(1,2,4,5)] by auto
  ultimately have "clean_text_preserving_gaps [NElem p pc [NText a], NText w, NElem q qc [NText b]] =
         py_strip a @ ''\<newline>\<newline>'' @ py_strip b"
    using normalize_gap_lines assms(3,4) by (simp add: clean_text_preserving_gaps_def)
  also have "\<dots> = clean_text_preserving_gaps [NElem p pc [NText a], NElem ''div'' [''empty-line''] [], NElem q qc [NText b]]"
    using gap_marker_one_blank_line [of a b pc qc "[''empty-line'']"] assms by simp
  finally show ?thesis .
qed


subsection \<open>Blank documents\<close>

lemma splitlines_from_chars:
  "set cur \<union> set s \<subseteq> (\<Union>l\<in>set (splitlines_from cur s). set l) \<union> {c. py_is_linebreak c}"
proof (induction cur s rule: splitlines_from.induct)
  case (2 cur c s)
  show ?case
  proof (cases "py_is_linebreak c")
    case True
    let ?s' = "if c = CHR 0x0D \<and> s \<noteq> [] \<and> hd s = CHR 0x0A then tl s else s"
    have "set s \<subseteq> set ?s' \<union> {c. py_is_linebreak c}"
      by (cases s) (auto simp: py_is_linebreak_def py_linebreaks_def)
    with True "2.IH"(1) show ?thesis by auto
  next
    case False
    with "2.IH"(2) show ?thesis by auto
  qed
qed simp

lemma splitlines_from_sub: "l \<in> set (splitlines_from cur s) \<Longrightarrow> set l \<subseteq> set cur \<union> set s"
proof (induction cur s rule: splitlines_from.induct)
  case (2 cur c s)
  show ?case
  proof (cases "py_is_linebreak c")
    case True
    let ?s' = "if c = CHR 0x0D \<and> s \<noteq> [] \<and> hd s = CHR 0x0A then tl s else s"
    have sub: "set ?s' \<subseteq> set s" by (cases s) auto
    from True "2.prems" have "l = cur \<or> l \<in> set (splitlines_from [] ?s')" by simp
    with True "2.IH"(1) sub show ?thesis by auto
  next
    case False
    with "2.prems" "2.IH"(2) show ?thesis by auto
  qed
qed (simp split: if_splits)

lemma all_space_splitlines:
  "all_space raw \<longleftrightarrow> (\<forall>l\<in>set (py_splitlines raw). all_space l)"
proof
  assume "all_space raw"
  then show "\<forall>l\<in>set (py_splitlines raw). all_space l"
    using splitlines_from_sub [of _ "[]" raw] by (auto simp: py_splitlines_def all_space_def)
next
  assume "\<forall>l\<in>set (py_splitlines raw). all_space l"
  then show "all_space raw"
    using splitlines_from_chars [of "[]" raw] linebreak_isspace
    by (auto simp: py_splitlines_def all_space_def)
qed

lemma collapse_blanks_Nil_iff: "collapse_blanks xs = [] \<longleftrightarrow> xs = []"
  using collapse_blanks_hd [of xs] by (cases "xs = []") auto

lemma clean_lines_Nil_iff: "clean_lines lines = [] \<longleftrightarrow> (\<forall>l\<in>set lines. all_space l)"
  by (simp add: clean_lines_eq_spec clean_lines_spec_def collapse_blanks_Nil_iff
      dropWhile_eq_Nil_conv py_strip_Nil_iff)

lemma drop_trailing_blank_Nil_iff:
  "C = [] \<or> hd C \<noteq> [] \<Longrightarrow> drop_trailing_blank C = [] \<longleftrightarrow> C = []"
proof
  assume h: "C = [] \<or> hd C \<noteq> []" and d: "drop_trailing_blank C = []"
  show "C = []"
  proof (cases "C \<noteq> [] \<and> last C = []")
    case True
    with d have "butlast C = []" by (simp add: drop_trailing_blank_def)
    with True have "C = [last C]" by (metis append_butlast_last_id append_Nil)
    with True h show ?thesis by (metis list.sel(1))
  next
    case False
    with d show ?thesis by (simp add: drop_trailing_blank_def)
  qed
next
  assume "C = []"
  then show "drop_trailing_blank C = []" by (simp add: drop_trailing_blank_def)
qed

lemma normalize_text_Nil_iff: "normalize_text raw_text = [] \<longleftrightarrow> all_space raw_text"
proof -
  let ?B = "block_lines raw_text"
  let ?C = "clean_lines (py_splitlines raw_text)"
  have blk: "?B = [] \<or> hd ?B \<noteq> []"
    using block_lines_text_block [of raw_text] by (auto simp: text_block_def)
  have "normalize_text raw_text = [] \<longleftrightarrow> ?B = []"
  proof
    assume "normalize_text raw_text = []"
    then have "py_join ''\<newline>'' ?B = []" by (simp add: normalize_text_join)
    then have "?B = [] \<or> (?B \<noteq> [] \<and> hd ?B = [])" by (rule py_join_Nil_iff)
    with blk show "?B = []" by auto
  next
    assume "?B = []"
    then show "normalize_text raw_text = []" by (simp add: normalize_text_join)
  qed
  also have "\<dots> \<longleftrightarrow> ?C = []"
    unfolding block_lines_def by (rule drop_trailing_blank_Nil_iff [OF clean_lines_props(3)])
  also have "\<dots> \<longleftrightarrow> all_space raw_text"
    unfolding clean_lines_Nil_iff by (rule all_space_splitlines [symmetric])
  finally show ?thesis .
qed

subsection \<open>Properties of the normaliser\<close>

lemma splitlines_clean_text:
  "py_splitlines (clean_text_preserving_gaps soup) = block_lines (get_text ''\<newline>'' (mark_spacers soup))"
  by (simp add: clean_text_preserving_gaps_def splitlines_normalize_text)



text \<open>C2. No leading or trailing blank line: every text the normaliser returns begins and ends with a non-space character (or is empty), and its lines are none or start and end with a non-empty line.\<close>
theorem clean_text_no_edge_blank:
  "is_stripped (clean_text_preserving_gaps soup) \<and>
   (py_splitlines (clean_text_preserving_gaps soup) = [] \<or>
    (hd (py_splitlines (clean_text_preserving_gaps soup)) \<noteq> [] \<and>
     last (py_splitlines (clean_text_preserving_gaps soup)) \<noteq> []))"
proof -
  have "is_stripped (clean_text_preserving_gaps soup)"
    using text_block_stripped_join [OF block_lines_text_block]
    by (simp add: clean_text_preserving_gaps_def normalize_text_join)
  then show ?thesis
    using block_lines_text_block by (simp add: splitlines_clean_text text_block_def)
qed

theorem clean_text_no_edge_blank_witness:
  "hd (py_splitlines (clean_text_preserving_gaps [NText '' \<newline>a\<newline> '']))  \<noteq> []"
proof -
  have "py_splitlines (clean_text_preserving_gaps [NText '' \<newline>a\<newline> '']) = [''a'']"
    by code_simp
  then show ?thesis using clean_text_no_edge_blank [of "[NText '' \<newline>a\<newline> '']"] by simp
qed

text \<open>C3. Idempotence: normalising a document made of the normaliser's own output as one text string returns that output unchanged.\<close>
theorem clean_text_idempotent:
  "clean_text_preserving_gaps [NText (clean_text_preserving_gaps soup)] = clean_text_preserving_gaps soup"
  by (simp add: clean_text_preserving_gaps_def mark_spacers_def get_text_def normalize_text_idem)

text \<open>C9. Refinement: the flag-based loop of lines 17--27 computes the abstract specification: strip every line, drop the blank lines before the first content, and collapse every run of blank lines to one.\<close>
theorem clean_loop_refines_spec:
  "cleaned (fold (\<lambda>line st. clean_step st line) lines clean_init) =
   collapse_blanks (dropWhile (\<lambda>l. l = []) (map py_strip lines))"
  using clean_lines_eq_spec [of lines] by (simp add: clean_lines_def clean_lines_spec_def)

text \<open>C10. Text Block invariant: the lines of every output are stripped, hold no line boundary, hold no two consecutive empty lines, and neither begin nor end with an empty line.\<close>
theorem clean_text_text_block: "text_block (py_splitlines (clean_text_preserving_gaps soup))"
  using block_lines_text_block by (simp add: splitlines_clean_text)

theorem clean_text_text_block_witness:
  "text_block (py_splitlines (clean_text_preserving_gaps [NText '' a \<newline>\<newline> b'']))"
  using clean_text_text_block [of "[NText '' a \<newline>\<newline> b'']"] by simp

text \<open>C17. Round trip: joining the lines of an output with line feeds gives the output back, so the output is exactly its list of lines.\<close>
theorem clean_text_roundtrip:
  "py_join ''\<newline>'' (py_splitlines (clean_text_preserving_gaps soup)) = clean_text_preserving_gaps soup"
  by (simp only: splitlines_clean_text) (simp add: clean_text_preserving_gaps_def normalize_text_join)

text \<open>C30. A document normalises to the empty text exactly when everything it extracts (spacers included) is whitespace: a blank document gives an empty output file, and a document with any non-space character gives a non-empty one.\<close>
theorem clean_text_empty_iff_blank:
  "clean_text_preserving_gaps soup = [] \<longleftrightarrow> all_space (get_text ''\<newline>'' (mark_spacers soup))"
  by (simp add: clean_text_preserving_gaps_def normalize_text_Nil_iff)

subsection \<open>The normaliser never lengthens its input\<close>

lemma length_py_join_Cons:
  "length (py_join sep (x # xs)) = length x + (if xs = [] then 0 else length sep + length (py_join sep xs))"
  by (cases xs) auto

lemma length_splitlines_from:
  "length (py_join ''\<newline>'' (splitlines_from cur s)) \<le> length cur + length s"
proof (induction cur s rule: splitlines_from.induct)
  case (2 cur c s)
  let ?s' = "if c = CHR 0x0D \<and> s \<noteq> [] \<and> hd s = CHR 0x0A then tl s else s"
  have "length ?s' \<le> length s" by simp
  then show ?case using 2 by (auto simp: length_py_join_Cons)
qed simp

lemma length_py_join_collapse:
  "length (py_join sep (collapse_blanks xs)) \<le> length (py_join sep xs)"
  by (induction xs rule: collapse_blanks.induct) (auto simp: length_py_join_Cons)

lemma length_py_join_dropWhile:
  "length (py_join sep (dropWhile P xs)) \<le> length (py_join sep xs)"
  by (induction xs) (auto simp: length_py_join_Cons)

lemma length_py_strip: "length (py_strip s) \<le> length s"
  by (simp add: py_strip_def) (metis length_dropWhile_le length_rev order.trans)

lemma length_py_join_map_strip:
  "length (py_join sep (map py_strip xs)) \<le> length (py_join sep xs)"
  by (induction xs) (auto simp: length_py_join_Cons intro: add_mono length_py_strip)

text \<open>C38. Bound: the normalised text is never longer than the raw text it is computed from; splitting, stripping, dropping and collapsing lines only remove characters.\<close>
theorem normalize_text_shorter: "length (normalize_text raw_text) \<le> length raw_text"
proof -
  let ?L = "py_splitlines raw_text"
  have "length (normalize_text raw_text) \<le> length (py_join ''\<newline>'' (clean_lines ?L))"
    by (simp add: normalize_text_def length_py_strip)
  also have "\<dots> \<le> length (py_join ''\<newline>'' (dropWhile (\<lambda>l. l = []) (map py_strip ?L)))"
    by (simp add: clean_lines_eq_spec clean_lines_spec_def length_py_join_collapse)
  also have "\<dots> \<le> length (py_join ''\<newline>'' (map py_strip ?L))"
    by (rule length_py_join_dropWhile)
  also have "\<dots> \<le> length (py_join ''\<newline>'' ?L)"
    by (rule length_py_join_map_strip)
  also have "\<dots> \<le> length raw_text"
    using length_splitlines_from [of "[]" raw_text] by (simp add: py_splitlines_def)
  finally show ?thesis .
qed

subsection \<open>Witnesses\<close>

theorem gap_marker_witness:
  "no_linebreak ''Hello'' \<and> no_linebreak ''World'' \<and> \<not> all_space ''Hello'' \<and> \<not> all_space ''World'' \<and>
   clean_text_preserving_gaps [NElem ''p'' [] [NText ''Hello''], NElem ''div'' [''empty-line''] [],
     NElem ''p'' [] [NText ''World'']] = ''Hello\<newline>\<newline>World''"
proof -
  have h: "no_linebreak ''Hello''" "no_linebreak ''World''" "\<not> all_space ''Hello''" "\<not> all_space ''World''"
    by (simp_all add: no_linebreak_def py_is_linebreak_def py_linebreaks_def all_space_def
        py_isspace_def py_whitespace_def)
  have s: "py_strip ''Hello'' = ''Hello''" "py_strip ''World'' = ''World''"
    by (simp_all add: py_strip_def py_isspace_def py_whitespace_def)
  show ?thesis
    using h gap_marker_one_blank_line [of "''Hello''" "''World''" "[]" "[]" "[''empty-line'']"
        "''p''" "''div''" "[]" "''p''"] s by simp
qed

theorem whitespace_node_witness:
  "no_linebreak ''Hello'' \<and> no_linebreak ''World'' \<and> \<not> all_space ''Hello'' \<and> \<not> all_space ''World'' \<and>
   all_space ''\<newline>  '' \<and>
   clean_text_preserving_gaps [NElem ''p'' [] [NText ''Hello''], NText ''\<newline>  '', NElem ''p'' [] [NText ''World'']] =
   clean_text_preserving_gaps [NElem ''p'' [] [NText ''Hello''], NElem ''div'' [''empty-line''] [],
     NElem ''p'' [] [NText ''World'']]"
proof -
  have h: "no_linebreak ''Hello''" "no_linebreak ''World''" "\<not> all_space ''Hello''"
    "\<not> all_space ''World''" "all_space ''\<newline>  ''"
    by (simp_all add: no_linebreak_def py_is_linebreak_def py_linebreaks_def all_space_def
        py_isspace_def py_whitespace_def)
  show ?thesis
    using h whitespace_node_acts_as_marker [of "''Hello''" "''World''" "''\<newline>  ''" "[]" "[]"
        "''p''" "''p''"] by simp
qed

end
