(* ===== verification/Spine.thy ===== *)
theory Spine
  imports Prelude
begin

text \<open>
  The spine resolver, \<open>iter_documents_in_order\<close> (\<open>src/epub_to_txt.py\<close> lines
  32--47), over the part of ebooklib's \<open>EpubBook\<close> it reads: the spine (a list of
  \<open>(idref, linear)\<close> tuples or bare identifiers) and the manifest items in their
  enumeration order.  \<open>get_item_with_id\<close> returns the first item with the identifier
  and \<open>get_items_of_type\<close> filters the items in order, as in ebooklib.  The generator
  is modelled as the list of the items it yields; the set \<open>seen_ids\<close> is threaded
  through the spine loop and read by the fallback loop.
\<close>

subsection \<open>The package\<close>

text \<open>ebooklib's item type constants \<open>ITEM_UNKNOWN\<close> (0) to \<open>ITEM_SMIL\<close> (11).\<close>

datatype item_type =
    ItemUnknown | ItemImage | ItemStyle | ItemScript | ItemNavigation | ItemVector
  | ItemFont | ItemVideo | ItemAudio | ItemDocument | ItemCover | ItemSmil

record epub_item =
  item_id :: string
  item_kind :: item_type
  item_content :: string

datatype spine_entry = SpineTuple string string | SpineId string

record package =
  spine :: "spine_entry list"
  items :: "epub_item list"

text \<open>Line 38: \<open>spine_item[0] if isinstance(spine_item, tuple) else spine_item\<close>.\<close>

fun spine_entry_id :: "spine_entry \<Rightarrow> string" where
  "spine_entry_id (SpineTuple idref linear) = idref"
| "spine_entry_id (SpineId idref) = idref"

definition get_item_with_id :: "epub_item list \<Rightarrow> string \<Rightarrow> epub_item option" where
  "get_item_with_id its uid = find (\<lambda>it. item_id it = uid) its"

definition get_items_of_type :: "item_type \<Rightarrow> epub_item list \<Rightarrow> epub_item list" where
  "get_items_of_type t its = filter (\<lambda>it. item_kind it = t) its"

subsection \<open>The resolver\<close>

text \<open>Lines 37--42: the spine loop, yielding the document items it resolves and
  recording their identifiers in \<open>seen_ids\<close>.\<close>

fun spine_pass ::
  "epub_item list \<Rightarrow> string set \<Rightarrow> spine_entry list \<Rightarrow> epub_item list \<times> string set" where
  "spine_pass its seen_ids [] = ([], seen_ids)"
| "spine_pass its seen_ids (e # es) =
     (let uid = spine_entry_id e in
      case get_item_with_id its uid of
        Some it \<Rightarrow>
          if item_kind it = ItemDocument
          then (let (out, seen') = spine_pass its (insert uid seen_ids) es in (it # out, seen'))
          else spine_pass its seen_ids es
      | None \<Rightarrow> spine_pass its seen_ids es)"

text \<open>Lines 34--47: the spine loop from an empty \<open>seen_ids\<close>, then every document
  item whose identifier was not seen, in enumeration order.\<close>

definition iter_documents_in_order :: "package \<Rightarrow> epub_item list" where
  "iter_documents_in_order book =
     (let (declared, seen_ids) = spine_pass (items book) {} (spine book)
      in declared @ filter (\<lambda>it. item_id it \<notin> seen_ids) (get_items_of_type ItemDocument (items book)))"

subsection \<open>Specification\<close>

text \<open>Whether a spine identifier resolves to a document item, and the document items
  of a package.\<close>

definition resolves_doc :: "epub_item list \<Rightarrow> string \<Rightarrow> bool" where
  "resolves_doc its uid =
     (case get_item_with_id its uid of Some it \<Rightarrow> item_kind it = ItemDocument | None \<Rightarrow> False)"

definition spine_doc_ids :: "package \<Rightarrow> string list" where
  "spine_doc_ids book = filter (resolves_doc (items book)) (map spine_entry_id (spine book))"

definition documents :: "package \<Rightarrow> epub_item list" where
  "documents book = get_items_of_type ItemDocument (items book)"

text \<open>The item \<open>spine_pass\<close> yields for a resolving identifier.\<close>

abbreviation lookup_item :: "epub_item list \<Rightarrow> string \<Rightarrow> epub_item" where
  "lookup_item its uid \<equiv> the (get_item_with_id its uid)"

subsection \<open>An example package\<close>

definition doc_item :: "string \<Rightarrow> epub_item" where
  "doc_item uid = \<lparr>item_id = uid, item_kind = ItemDocument, item_content = ''<p>'' @ uid @ ''</p>''\<rparr>"

definition abc_book :: package where
  "abc_book = \<lparr>spine = [SpineTuple ''A'' ''yes'', SpineTuple ''css'' ''yes'', SpineId ''B''],
               items = [doc_item ''A'', \<lparr>item_id = ''css'', item_kind = ItemStyle, item_content = ''''\<rparr>,
                        doc_item ''C'', doc_item ''B'']\<rparr>"

subsection \<open>The resolver against its specification\<close>

lemma get_item_with_id_Some:
  "get_item_with_id its uid = Some it \<Longrightarrow> item_id it = uid \<and> it \<in> set its"
  by (auto simp: get_item_with_id_def find_Some_iff)

lemma get_item_with_id_distinct:
  "distinct (map item_id its) \<Longrightarrow> it \<in> set its \<Longrightarrow> get_item_with_id its (item_id it) = Some it"
  by (induction its) (auto simp: get_item_with_id_def)

lemma resolves_docD:
  "resolves_doc its uid \<Longrightarrow>
   get_item_with_id its uid = Some (lookup_item its uid) \<and>
   item_kind (lookup_item its uid) = ItemDocument \<and> item_id (lookup_item its uid) = uid \<and>
   lookup_item its uid \<in> set its"
  by (auto simp: resolves_doc_def dest: get_item_with_id_Some split: option.splits)

lemma spine_pass_eq:
  "spine_pass its seen_ids es =
     (map (lookup_item its) (filter (resolves_doc its) (map spine_entry_id es)),
      seen_ids \<union> set (filter (resolves_doc its) (map spine_entry_id es)))"
proof (induction es arbitrary: seen_ids)
  case Nil
  then show ?case by simp
next
  case (Cons e es)
  show ?case
  proof (cases "get_item_with_id its (spine_entry_id e)")
    case None
    then have "\<not> resolves_doc its (spine_entry_id e)" by (simp add: resolves_doc_def)
    with None Cons.IH show ?thesis by (simp add: Let_def)
  next
    case (Some it)
    then show ?thesis
      using Cons.IH by (auto simp: Let_def resolves_doc_def)
  qed
qed

lemma iter_documents_eq:
  "iter_documents_in_order book =
     map (lookup_item (items book)) (spine_doc_ids book) @
     filter (\<lambda>it. item_id it \<notin> set (spine_doc_ids book)) (documents book)"
  by (simp add: iter_documents_in_order_def spine_pass_eq spine_doc_ids_def documents_def)

lemma map_item_id_lookup:
  "\<forall>u\<in>set us. resolves_doc its u \<Longrightarrow> map (\<lambda>u. item_id (lookup_item its u)) us = us"
  by (induction us) (auto dest: resolves_docD)

text \<open>C5. Order: the identifiers the resolver yields are the spine identifiers that resolve to document items, in spine order (repeats included), followed by the identifiers of the other document items in enumeration order.\<close>

theorem iter_documents_ids:
  "map item_id (iter_documents_in_order book) =
     spine_doc_ids book @ filter (\<lambda>u. u \<notin> set (spine_doc_ids book)) (map item_id (documents book))"
proof -
  have "\<forall>u\<in>set (spine_doc_ids book). resolves_doc (items book) u"
    by (simp add: spine_doc_ids_def)
  then show ?thesis
    by (simp add: iter_documents_eq map_item_id_lookup filter_map comp_def)
qed

lemma documents_in_declared_or_fallback:
  assumes ids: "distinct (map item_id (items book))" and d: "d \<in> set (documents book)"
  shows "d \<in> set (map (lookup_item (items book)) (spine_doc_ids book)) \<or>
         d \<in> set (filter (\<lambda>it. item_id it \<notin> set (spine_doc_ids book)) (documents book))"
proof (cases "item_id d \<in> set (spine_doc_ids book)")
  case True
  have "d \<in> set (items book)" using d by (simp add: documents_def get_items_of_type_def)
  then have "lookup_item (items book) (item_id d) = d"
    using get_item_with_id_distinct [OF ids] by simp
  with True show ?thesis by force
next
  case False
  with d show ?thesis by simp
qed

text \<open>C4. Exactly once: when item identifiers are unique and no document is referenced twice by the spine, the resolver yields every document item exactly once (the multiset of its output is that of the package's document items).\<close>

theorem iter_documents_exactly_once:
  assumes ids: "distinct (map item_id (items book))"
    and sp: "distinct (spine_doc_ids book)"
  shows "mset (iter_documents_in_order book) = mset (documents book)"
proof -
  let ?S = "spine_doc_ids book"
  let ?D = "map (lookup_item (items book)) ?S"
  let ?F = "filter (\<lambda>it. item_id it \<notin> set ?S) (documents book)"
  have res: "\<forall>u\<in>set ?S. resolves_doc (items book) u" by (simp add: spine_doc_ids_def)
  have idD: "map item_id ?D = ?S" using map_item_id_lookup [OF res] by (simp add: comp_def)
  have "distinct (map item_id ?D)" using sp idD by simp
  then have dD: "distinct ?D" by (rule distinct_map_distinct)
  have "distinct (items book)" using ids by (rule distinct_map_distinct)
  then have ddocs: "distinct (documents book)"
    by (simp add: documents_def get_items_of_type_def)
  have dF: "distinct ?F" using ddocs by simp
  have "\<forall>x\<in>set ?D. item_id x \<in> set ?S"
  proof
    fix x assume "x \<in> set ?D"
    then have "item_id x \<in> set (map item_id ?D)" by (simp only: set_map imageI)
    with idD show "item_id x \<in> set ?S" by simp
  qed
  then have disj: "set ?D \<inter> set ?F = {}" by auto
  have subD: "set ?D \<subseteq> set (documents book)"
  proof
    fix x assume "x \<in> set ?D"
    then obtain u where u: "u \<in> set ?S" "x = lookup_item (items book) u" by auto
    with res have "resolves_doc (items book) u" by blast
    then show "x \<in> set (documents book)"
      using u resolves_docD by (simp add: documents_def get_items_of_type_def)
  qed
  have subdocs: "set (documents book) \<subseteq> set ?D \<union> set ?F"
    using documents_in_declared_or_fallback [OF ids] by blast
  have sA: "set (?D @ ?F) = set (documents book)" using subD subdocs by auto
  have dA: "distinct (?D @ ?F)" using dD dF disj by simp
  have "mset (?D @ ?F) = mset (documents book)"
    using set_eq_iff_mset_eq_distinct [OF dA ddocs] sA by blast
  then show ?thesis by (simp add: iter_documents_eq)
qed

lemma spine_doc_ids_documents:
  "set (spine_doc_ids book) \<subseteq> item_id ` set (documents book)"
proof
  fix u assume "u \<in> set (spine_doc_ids book)"
  then have r: "resolves_doc (items book) u" by (simp add: spine_doc_ids_def)
  then have "lookup_item (items book) u \<in> set (documents book)"
    using resolves_docD by (simp add: documents_def get_items_of_type_def)
  moreover have "item_id (lookup_item (items book) u) = u" using r resolves_docD by blast
  ultimately show "u \<in> item_id ` set (documents book)" by (metis imageI)
qed

text \<open>C16. Completeness: the set of identifiers the resolver yields is exactly the set of identifiers of the package's document items, for every package.\<close>

theorem iter_documents_id_set:
  "item_id ` set (iter_documents_in_order book) = item_id ` set (documents book)"
proof -
  have "item_id ` set (iter_documents_in_order book) = set (map item_id (iter_documents_in_order book))"
    by simp
  also have "\<dots> = set (spine_doc_ids book) \<union> (item_id ` set (documents book) - set (spine_doc_ids book))"
    by (simp only: iter_documents_ids) auto
  also have "\<dots> = item_id ` set (documents book)"
    using spine_doc_ids_documents by blast
  finally show ?thesis .
qed


theorem iter_documents_exactly_once_witness:
  "distinct (map item_id (items abc_book)) \<and> distinct (spine_doc_ids abc_book) \<and>
   mset (iter_documents_in_order abc_book) = mset (documents abc_book)"
proof -
  have h: "distinct (map item_id (items abc_book))" "distinct (spine_doc_ids abc_book)"
    by (simp_all add: abc_book_def doc_item_def spine_doc_ids_def resolves_doc_def get_item_with_id_def)
  show ?thesis using h iter_documents_exactly_once [OF h] by simp
qed


end
