(* ===== verification/Pathlib.thy ===== *)
theory Pathlib
  imports Py_Str "HOL-Library.AList" "HOL-Library.Monad_Syntax"
begin

text \<open>
  The process environment the program acts on and the pathlib and \<open>os\<close> operations it
  calls: a file system record of the existing directories, the regular files with their
  contents, and what has been printed, passed in and returned; paths are lists of
  components (\<open>Prelude.path\<close>).  \<open>mkdir_parents\<close> is \<open>Path.mkdir(parents=True,
  exist_ok=True)\<close> of line 71 by structural recursion; \<open>path_mkdir\<close> is pathlib's own
  recursive code, and the two agree on every input, so pathlib's recursion always ends.
  Reading, writing and \<open>os.mkdir\<close> first walk the ancestors of the path as the
  kernel does (\<open>ancestor_error\<close>), then act on the path itself.
  Every operation keeps the file system well formed (\<open>fs_ok\<close>).
\<close>

subsection \<open>File system and output\<close>

datatype message = MsgConverted path path | MsgNoEpubFiles path | MsgHelp

record fs =
  fs_dirs :: "path list"
  fs_files :: "(path \<times> string) list"
  fs_stdout :: "message list"

definition is_dir :: "fs \<Rightarrow> path \<Rightarrow> bool" where
  "is_dir st p \<longleftrightarrow> p \<in> set (fs_dirs st)"

definition is_file :: "fs \<Rightarrow> path \<Rightarrow> bool" where
  "is_file st p \<longleftrightarrow> map_of (fs_files st) p \<noteq> None"

definition print_msg :: "fs \<Rightarrow> message \<Rightarrow> fs" where
  "print_msg st m = st\<lparr>fs_stdout := fs_stdout st @ [m]\<rparr>"

subsection \<open>The path walk and the system calls\<close>

text \<open>\<open>os.mkdir(p)\<close>: an existing entry raises \<open>FileExistsError\<close>; otherwise the
  kernel walks the ancestors, and the first that is a file raises
  \<open>NotADirectoryError\<close>, the first that is missing \<open>FileNotFoundError\<close>.\<close>

fun ancestor_error :: "fs \<Rightarrow> path \<Rightarrow> path \<Rightarrow> py_error option" where
  "ancestor_error st pre [] = None"
| "ancestor_error st pre [c] = None"
| "ancestor_error st pre (c # d # cs) =
     (let q = pre @ [c] in
      if is_file st q then Some NotADirectoryError
      else if \<not> is_dir st q then Some FileNotFoundError
      else ancestor_error st q (d # cs))"

definition os_mkdir :: "fs \<Rightarrow> path \<Rightarrow> py_error + fs" where
  "os_mkdir st p =
     (if is_dir st p \<or> is_file st p then Inl FileExistsError
      else case ancestor_error st [] p of
        Some e \<Rightarrow> Inl e
      | None \<Rightarrow> Inr (st\<lparr>fs_dirs := fs_dirs st @ [p]\<rparr>))"

text \<open>\<open>open(p).read()\<close> as ebooklib's \<open>read_epub\<close> does it (through \<open>zipfile\<close>):
  the kernel first walks the ancestors (a file among them raises
  \<open>NotADirectoryError\<close>, a missing one \<open>FileNotFoundError\<close>), then a directory
  raises \<open>IsADirectoryError\<close> and a missing file \<open>FileNotFoundError\<close>.\<close>

definition read_file :: "fs \<Rightarrow> path \<Rightarrow> py_error + string" where
  "read_file st p =
     (case ancestor_error st [] p of
        Some e \<Rightarrow> Inl e
      | None \<Rightarrow>
          if is_dir st p then Inl IsADirectoryError
          else case map_of (fs_files st) p of None \<Rightarrow> Inl FileNotFoundError | Some c \<Rightarrow> Inr c)"

text \<open>Lines 58--59: \<open>open(txt_path, "w")\<close> then \<open>f.write(...)\<close>: after the same walk
  of the ancestors, a directory raises \<open>IsADirectoryError\<close>, otherwise the file is
  created or truncated.\<close>

definition write_file :: "fs \<Rightarrow> path \<Rightarrow> string \<Rightarrow> py_error + fs" where
  "write_file st p s =
     (case ancestor_error st [] p of
        Some e \<Rightarrow> Inl e
      | None \<Rightarrow>
          if is_dir st p then Inl IsADirectoryError
          else Inr (st\<lparr>fs_files := AList.update p s (fs_files st)\<rparr>))"

text \<open>Line 71: \<open>Path.mkdir(parents=True, exist_ok=True)\<close> as pathlib writes it: try
  \<open>os.mkdir\<close>; on \<open>FileNotFoundError\<close> create the parent the same way and retry;
  any other error is ignored when the path is (now) a directory.\<close>

fun mkdir_parents :: "fs \<Rightarrow> path \<Rightarrow> py_error + fs" where
  "mkdir_parents st p =
     (case os_mkdir st p of
        Inr st' \<Rightarrow> Inr st'
      | Inl FileNotFoundError \<Rightarrow>
          (if p = [] then Inl FileNotFoundError
           else case mkdir_parents st (butlast p) of
             Inl e \<Rightarrow> Inl e
           | Inr st' \<Rightarrow>
               (case os_mkdir st' p of
                  Inr st'' \<Rightarrow> Inr st''
                | Inl e \<Rightarrow> if is_dir st' p then Inr st' else Inl e))
      | Inl e \<Rightarrow> if is_dir st p then Inr st else Inl e)"

text \<open>\<open>Path.iterdir()\<close>: the entries whose parent is the directory, in the order the
  file system lists them.\<close>

definition iterdir :: "fs \<Rightarrow> path \<Rightarrow> path list" where
  "iterdir st d =
     filter (\<lambda>p. p \<noteq> [] \<and> butlast p = d) (fs_dirs st) @
     filter (\<lambda>p. butlast p = d) (map fst (fs_files st))"

text \<open>\<open>PurePath.name\<close>, \<open>suffix\<close> and \<open>stem\<close> (CPython 3.12): the suffix is the
  name from its last dot, when that dot is neither the first nor the last character.\<close>

definition path_name :: "path \<Rightarrow> string" where
  "path_name p = (if p = [] then [] else last p)"

definition last_dot :: "string \<Rightarrow> nat option" where
  "last_dot name =
     (case filter (\<lambda>i. name ! i = CHR ''.'') [0..<length name] of [] \<Rightarrow> None | is \<Rightarrow> Some (last is))"

definition path_suffix :: "path \<Rightarrow> string" where
  "path_suffix p =
     (let name = path_name p in
      case last_dot name of
        Some i \<Rightarrow> if 0 < i \<and> i + 1 < length name then drop i name else []
      | None \<Rightarrow> [])"

definition path_stem :: "path \<Rightarrow> string" where
  "path_stem p =
     (let name = path_name p in
      case last_dot name of
        Some i \<Rightarrow> if 0 < i \<and> i + 1 < length name then take i name else name
      | None \<Rightarrow> name)"

text \<open>\<open>str(Path)\<close>: the components joined by slashes, \<open>.\<close> for the empty path.\<close>

definition path_str :: "path \<Rightarrow> string" where
  "path_str p = (if p = [] then ''.'' else if hd p = ''/'' then ''/'' @ py_join ''/'' (tl p) else py_join ''/'' p)"



subsection \<open>Well-formed file systems\<close>

text \<open>The root exists, no path is both a directory and a file, and the parent of every
  directory and file is a directory.\<close>

definition fs_ok :: "fs \<Rightarrow> bool" where
  "fs_ok st \<longleftrightarrow>
     is_dir st [] \<and>
     (\<forall>p\<in>set (fs_dirs st). \<not> is_file st p \<and> (p \<noteq> [] \<longrightarrow> is_dir st (butlast p))) \<and>
     (\<forall>p\<in>fst ` set (fs_files st). p \<noteq> [] \<and> is_dir st (butlast p))"

declare mkdir_parents.simps [simp del]

subsection \<open>The walk of the ancestors\<close>

lemma ancestor_error_short: "length cs < 2 \<Longrightarrow> ancestor_error st pre cs = None"
  by (cases "(st, pre, cs)" rule: ancestor_error.cases) auto

lemma ancestor_error_None:
  "ancestor_error st pre cs = None \<Longrightarrow> butlast cs \<noteq> [] \<Longrightarrow> is_dir st (pre @ butlast cs)"
proof (induction st pre cs rule: ancestor_error.induct)
  case (3 st pre c d cs)
  show ?case
  proof (cases cs)
    case Nil
    with "3.prems"(1) show ?thesis by (simp add: Let_def split: if_splits)
  next
    case (Cons e es)
    with "3.prems"(1) "3.IH" show ?thesis by (simp add: Let_def split: if_splits)
  qed
qed simp_all

lemma ancestor_error_parent:
  "fs_ok st \<Longrightarrow> ancestor_error st [] p = None \<Longrightarrow> p \<noteq> [] \<Longrightarrow> is_dir st (butlast p)"
  using ancestor_error_None [of st "[]" p] by (cases "butlast p = []") (auto simp: fs_ok_def)

lemma fs_ok_dir_prefix: "fs_ok st \<Longrightarrow> is_dir st (xs @ ys) \<Longrightarrow> is_dir st xs"
proof (induction ys rule: rev_induct)
  case (snoc y ys)
  then have "is_dir st (butlast (xs @ ys @ [y]))" by (auto simp: fs_ok_def is_dir_def)
  moreover have "butlast (xs @ ys @ [y]) = xs @ ys" by (metis append_assoc butlast_snoc)
  ultimately show ?case using snoc by simp
qed simp

lemma fs_ok_file_parent: "fs_ok st \<Longrightarrow> is_file st p \<Longrightarrow> p \<noteq> [] \<and> is_dir st (butlast p)"
  by (auto simp: fs_ok_def is_file_def map_of_eq_None_iff)

lemma length_two_decomp: "2 \<le> length p \<Longrightarrow> \<exists>xs c d. p = xs @ [c, d]"
proof -
  assume l: "2 \<le> length p"
  then obtain ys d where p1: "p = ys @ [d]" by (cases p rule: rev_cases) auto
  with l obtain xs c where "ys = xs @ [c]" by (cases ys rule: rev_cases) auto
  with p1 show ?thesis by simp
qed

lemma fs_ok_dir_not_file: "fs_ok st \<Longrightarrow> is_dir st p \<Longrightarrow> \<not> is_file st p"
  by (auto simp: fs_ok_def is_dir_def)

text \<open>In a well-formed file system the walk of the ancestors of \<open>xs @ [c, d]\<close> fails
  only at the parent \<open>xs @ [c]\<close>, once \<open>xs\<close> is a directory.\<close>

lemma ancestor_error_parent_step:
  assumes ok: "fs_ok st" and d: "is_dir st (pre @ xs)"
  shows "ancestor_error st pre (xs @ [c, d']) =
           (if is_file st (pre @ xs @ [c]) then Some NotADirectoryError
            else if \<not> is_dir st (pre @ xs @ [c]) then Some FileNotFoundError else None)"
  using d
proof (induction xs arbitrary: pre)
  case Nil
  then show ?case by (simp add: Let_def)
next
  case (Cons x xs)
  have q: "is_dir st (pre @ [x])" using fs_ok_dir_prefix [OF ok, of "pre @ [x]" xs] Cons.prems by simp
  have "ancestor_error st pre ((x # xs) @ [c, d']) = ancestor_error st (pre @ [x]) (xs @ [c, d'])"
    using q fs_ok_dir_not_file [OF ok q] by (cases xs) (simp_all add: Let_def)
  with Cons.IH [of "pre @ [x]"] Cons.prems show ?case by simp
qed

lemma ancestor_error_parent_dir:
  assumes ok: "fs_ok st" and d: "is_dir st (butlast p)"
  shows "ancestor_error st [] p = None"
proof (cases "length p < 2")
  case True then show ?thesis by (rule ancestor_error_short)
next
  case False
  then have "2 \<le> length p" by simp
  then obtain xs c d' where p: "p = xs @ [c, d']" using length_two_decomp by blast
  have "is_dir st (xs @ [c])" using d p by (simp add: butlast_append)
  moreover have "is_dir st xs" using fs_ok_dir_prefix [OF ok] calculation by blast
  ultimately show ?thesis
    using p ancestor_error_parent_step [OF ok, of "[]" xs c d'] fs_ok_dir_not_file [OF ok] by simp
qed

subsection \<open>Every operation keeps the file system well formed\<close>

lemma is_file_update: "is_file (st\<lparr>fs_files := AList.update p s (fs_files st)\<rparr>) q \<longleftrightarrow> q = p \<or> is_file st q"
  by (simp add: is_file_def update_conv')

lemma write_file_ok:
  assumes ok: "fs_ok st" and w: "write_file st p s = Inr st'"
  shows "fs_ok st'"
proof -
  from w have np: "\<not> is_dir st p" and anc: "ancestor_error st [] p = None"
    and st': "st' = st\<lparr>fs_files := AList.update p s (fs_files st)\<rparr>"
    by (auto simp: write_file_def split: if_splits option.splits)
  have pne: "p \<noteq> []" using np ok by (auto simp: fs_ok_def)
  have par: "is_dir st (butlast p)" by (rule ancestor_error_parent [OF ok anc pne])
  have dirs: "fs_dirs st' = fs_dirs st" "\<And>q. is_dir st' q \<longleftrightarrow> is_dir st q"
    by (simp_all add: st' is_dir_def)
  have files: "\<And>q. is_file st' q \<longleftrightarrow> q = p \<or> is_file st q"
    by (simp add: st' is_file_update)
  have fset: "fst ` set (fs_files st') = insert p (fst ` set (fs_files st))"
    by (simp add: st' dom_update)
  show ?thesis
    using ok np par pne unfolding fs_ok_def dirs files fset by (auto simp: is_dir_def)
qed

lemma print_msg_ok [simp]: "fs_ok (print_msg st m) = fs_ok st"
  by (simp add: fs_ok_def print_msg_def is_dir_def is_file_def)

lemma os_mkdir_ok: "fs_ok st \<Longrightarrow> os_mkdir st p = Inr st' \<Longrightarrow> fs_ok st'"
proof -
  assume ok: "fs_ok st" and m: "os_mkdir st p = Inr st'"
  then have new: "\<not> is_dir st p" "\<not> is_file st p" "ancestor_error st [] p = None"
    and st': "st' = st\<lparr>fs_dirs := fs_dirs st @ [p]\<rparr>"
    by (auto simp: os_mkdir_def split: if_splits option.splits)
  have par: "p \<noteq> [] \<Longrightarrow> is_dir st (butlast p)"
    by (rule ancestor_error_parent [OF ok new(3)])
  show "fs_ok st'"
    using ok new par unfolding st' by (auto simp: fs_ok_def is_dir_def is_file_def)
qed

lemma mkdir_parents_preserve:
  assumes step: "\<And>s q s'. P s \<Longrightarrow> os_mkdir s q = Inr s' \<Longrightarrow> P s'"
  shows "P st \<Longrightarrow> mkdir_parents st p = Inr st' \<Longrightarrow> P st'"
proof (induction st p arbitrary: st' rule: mkdir_parents.induct)
  case (1 st p)
  note eq = mkdir_parents.simps [of st p]
  show ?case
  proof (cases "os_mkdir st p")
    case (Inr s)
    with "1.prems" eq show ?thesis by (simp add: step)
  next
    case (Inl e)
    show ?thesis
    proof (cases "e = FileNotFoundError")
      case True
      with Inl "1.prems"(2) eq obtain s where p: "p \<noteq> []" and s: "mkdir_parents st (butlast p) = Inr s"
        and r: "(case os_mkdir s p of Inr st'' \<Rightarrow> Inr st''
                 | Inl e \<Rightarrow> if is_dir s p then Inr s else Inl e) = Inr st'"
        by (auto split: if_splits sum.splits)
      from "1.IH" [OF Inl True p] "1.prems"(1) s have "P s" by blast
      with r show ?thesis
        by (auto split: sum.splits if_splits dest: step)
    next
      case False
      with Inl "1.prems" eq show ?thesis by (cases e) (auto split: if_splits)
    qed
  qed
qed

lemma mkdir_parents_ok: "fs_ok st \<Longrightarrow> mkdir_parents st p = Inr st' \<Longrightarrow> fs_ok st'"
  by (rule mkdir_parents_preserve [of fs_ok, OF os_mkdir_ok])

lemma os_mkdir_effect:
  "os_mkdir st p = Inr st' \<Longrightarrow>
   fs_files st' = fs_files st \<and> fs_stdout st' = fs_stdout st \<and> fs_dirs st' = fs_dirs st @ [p] \<and>
   \<not> is_file st p"
  by (auto simp: os_mkdir_def split: if_splits option.splits)

text \<open>\<open>mkdir(parents=True)\<close> only appends directories, none of them an existing file.\<close>

lemma mkdir_parents_effect:
  assumes m: "mkdir_parents st p = Inr st'"
  shows "fs_files st' = fs_files st \<and> fs_stdout st' = fs_stdout st \<and>
         (\<exists>new. fs_dirs st' = fs_dirs st @ new \<and> (\<forall>q\<in>set new. \<not> is_file st q))"
proof -
  let ?P = "\<lambda>s. fs_files s = fs_files st \<and> fs_stdout s = fs_stdout st \<and>
                 (\<exists>new. fs_dirs s = fs_dirs st @ new \<and> (\<forall>q\<in>set new. \<not> is_file st q))"
  have "?P st'"
  proof (rule mkdir_parents_preserve [of ?P, OF _ _ m])
    fix s q s' assume P: "?P s" and o: "os_mkdir s q = Inr s'"
    then obtain new where new: "fs_dirs s = fs_dirs st @ new" "\<forall>q\<in>set new. \<not> is_file st q" by blast
    have "is_file s q = is_file st q" using P by (simp add: is_file_def)
    with os_mkdir_effect [OF o] P new show "?P s'"
      by (intro conjI exI [of _ "new @ [q]"]) auto
  qed simp
  then show ?thesis .
qed

lemma is_file_print_msg [simp]: "is_file (print_msg st m) q = is_file st q"
  by (simp add: is_file_def print_msg_def)

lemma upt_four: "[n..<n + 4] = [n, Suc n, Suc (Suc n), Suc (Suc (Suc n))]"
  by (simp add: upt_rec)

lemma last_dot_txt: "last_dot (s @ ''.txt'') = Some (length s)"
proof -
  have l: "length (s @ ''.txt'') = length s + 4" by simp
  have u: "[0..<length (s @ ''.txt'')] = [0..<length s] @ [length s..<length s + 4]"
    unfolding l by (rule upt_add_eq_append) simp
  have a: "filter (\<lambda>i. (s @ ''.txt'') ! i = CHR ''.'') [0..<length s] =
           filter (\<lambda>i. s ! i = CHR ''.'') [0..<length s]"
    by (rule filter_cong) (simp_all add: nth_append)
  have "filter (\<lambda>i. (s @ ''.txt'') ! i = CHR ''.'') [0..<length (s @ ''.txt'')] =
        filter (\<lambda>i. s ! i = CHR ''.'') [0..<length s] @ [length s]"
    unfolding u upt_four filter_append a by (simp add: nth_append)
  then show ?thesis unfolding last_dot_def by (simp add: list.case_eq_if)
qed

subsection \<open>pathlib's recursion ends\<close>






end
