(* ===== verification/Convert.thy ===== *)
theory Convert
  imports Normalizer Spine Pathlib
begin

text \<open>
  The conversion orchestrator: \<open>epub_to_txt\<close> (\<open>src/epub_to_txt.py\<close> lines 49--61)
  and \<open>convert_directory\<close> (lines 64--83), with the effects they have made explicit.
  The file system and the pathlib operations are those of \<open>Pathlib\<close>.  The two external collaborators, ebooklib's
  \<open>read_epub\<close> and BeautifulSoup's HTML parser, are fields of a record the
  orchestrator is parameterised by, so every theorem holds for any reader and parser.
  Every exception is a value \<open>Inl e\<close> of \<open>py_error + fs\<close>, which stops the run
  with the file system as the failing operation left it (the effects before it kept).
\<close>

subsection \<open>Collaborators\<close>

record collab =
  read_epub :: "string \<Rightarrow> string + package"
  parse_html :: "string \<Rightarrow> soup"

subsection \<open>epub_to_txt\<close>

text \<open>Lines 50--59: read the book, normalise every resolved document, join the
  blocks with a blank line, write the text; line 61 prints the confirmation.\<close>

definition book_text :: "collab \<Rightarrow> package \<Rightarrow> string" where
  "book_text env book =
     py_join ''\<newline>\<newline>''
       (map (\<lambda>it. clean_text_preserving_gaps (parse_html env (item_content it)))
            (iter_documents_in_order book))"

definition epub_to_txt :: "collab \<Rightarrow> path \<Rightarrow> path \<Rightarrow> fs \<Rightarrow> py_error + fs" where
  "epub_to_txt env epub_path txt_path st =
     (case read_file st epub_path of
        Inl e \<Rightarrow> Inl e
      | Inr raw \<Rightarrow>
          (case read_epub env raw of
             Inl msg \<Rightarrow> Inl (EpubReadError msg)
           | Inr book \<Rightarrow>
               (case write_file st txt_path (book_text env book) of
                  Inl e \<Rightarrow> Inl e
                | Inr st' \<Rightarrow> Inr (print_msg st' (MsgConverted epub_path txt_path)))))"

subsection \<open>convert_directory\<close>

text \<open>Line 69: the message of the \<open>ValueError\<close>, with the path rendered as pathlib
  renders it (components joined by slashes).\<close>

definition not_a_dir_message :: "path \<Rightarrow> string" where
  "not_a_dir_message d =
     ''Input directory '' @ [CHR 0x27] @ path_str d @ [CHR 0x27] @ '' does not exist or is not a directory.''"

text \<open>Lines 73--75: the regular files with a case-insensitive \<open>.epub\<close> suffix,
  sorted.\<close>

definition epub_files :: "fs \<Rightarrow> path \<Rightarrow> path list" where
  "epub_files st d = sort (filter (\<lambda>p. is_file st p \<and> py_lower (path_suffix p) = ''.epub'') (iterdir st d))"

definition target_txt :: "path \<Rightarrow> path \<Rightarrow> path" where
  "target_txt output_dir epub_file = output_dir @ [path_stem epub_file @ ''.txt'']"

text \<open>
  A run of the batch loop can raise after some files were written, and those files stay
  on disk: the loop and \<open>convert_directory\<close> return the file system together
  with the exception that ended them, if any.
\<close>

type_synonym run = "fs \<times> py_error option"

text \<open>Lines 81--83: convert the files in order; the first exception ends the loop.\<close>

fun convert_all :: "collab \<Rightarrow> path \<Rightarrow> path list \<Rightarrow> fs \<Rightarrow> run" where
  "convert_all env output_dir [] st = (st, None)"
| "convert_all env output_dir (f # fs) st =
     (case epub_to_txt env f (target_txt output_dir f) st of
        Inl e \<Rightarrow> (st, Some e)
      | Inr st' \<Rightarrow> convert_all env output_dir fs st')"

text \<open>Lines 64--83.\<close>

definition convert_directory :: "collab \<Rightarrow> path \<Rightarrow> path \<Rightarrow> fs \<Rightarrow> run" where
  "convert_directory env input_dir output_dir st =
     (if \<not> is_dir st input_dir then (st, Some (ValueError (not_a_dir_message input_dir)))
      else case mkdir_parents st output_dir of
        Inl e \<Rightarrow> (st, Some e)
      | Inr st1 \<Rightarrow>
          (let files = epub_files st1 input_dir in
           if files = [] then (print_msg st1 (MsgNoEpubFiles input_dir), None)
           else convert_all env output_dir files st1))"

subsection \<open>Example file systems and collaborators\<close>

text \<open>A reader that turns a file's bytes into a one-document book, one that rejects the
  bytes \<open>B\<close> as a bad zip file, and small directory trees.\<close>

definition demo_env :: collab where
  "demo_env = \<lparr>read_epub = (\<lambda>raw. Inr \<lparr>spine = [SpineId ''c''],
       items = [\<lparr>item_id = ''c'', item_kind = ItemDocument, item_content = raw\<rparr>]\<rparr>),
     parse_html = (\<lambda>c. [NText c])\<rparr>"

definition picky_env :: collab where
  "picky_env = demo_env\<lparr>read_epub := (\<lambda>raw. if raw = ''B'' then Inl ''Bad Zip file''
                                            else read_epub demo_env raw)\<rparr>"

definition batch_fs :: fs where
  "batch_fs = \<lparr>fs_dirs = [[], [''in'']],
     fs_files = [([''in'', ''b.epub''], ''B''), ([''in'', ''a.EPUB''], ''A''), ([''in'', ''notes.txt''], ''n'')],
     fs_stdout = []\<rparr>"


definition notes_fs :: fs where
  "notes_fs = \<lparr>fs_dirs = [[], [''in'']], fs_files = [([''in'', ''notes.txt''], ''n'')], fs_stdout = []\<rparr>"

subsection \<open>Every operation keeps the file system well formed\<close>




subsection \<open>Frame: only the output directory is written\<close>

lemma epub_to_txt_frame:
  "epub_to_txt env e t st = Inr st' \<Longrightarrow> q \<noteq> t \<Longrightarrow>
   map_of (fs_files st') q = map_of (fs_files st) q \<and> fs_dirs st' = fs_dirs st"
  by (auto simp: epub_to_txt_def write_file_def print_msg_def update_conv' split: sum.splits if_splits option.splits)

lemma butlast_target_txt [simp]: "butlast (target_txt out f) = out"
  by (simp add: target_txt_def)

lemma convert_all_frame:
  "butlast q \<noteq> out \<Longrightarrow>
   map_of (fs_files (fst (convert_all env out fs st))) q = map_of (fs_files st) q \<and>
   fs_dirs (fst (convert_all env out fs st)) = fs_dirs st"
proof (induction fs arbitrary: st)
  case (Cons f fs)
  have "q \<noteq> target_txt out f" using Cons.prems by auto
  with Cons show ?case by (auto split: sum.splits dest: epub_to_txt_frame)
qed simp

subsection \<open>Behaviour of the orchestrator\<close>

text \<open>C15. A successful conversion writes exactly the normalised blocks of the resolved documents, joined by blank lines, to the target path (creating or truncating it), changes no other file, and prints one confirmation.\<close>

theorem epub_to_txt_success:
  assumes "fs_ok st" "read_file st epub_path = Inr raw" "read_epub env raw = Inr book"
    and "is_dir st (butlast txt_path)" "\<not> is_dir st txt_path"
  shows "epub_to_txt env epub_path txt_path st =
           Inr (print_msg (st\<lparr>fs_files := AList.update txt_path (book_text env book) (fs_files st)\<rparr>)
                  (MsgConverted epub_path txt_path))"
  using assms ancestor_error_parent_dir [OF assms(1,4)] by (simp add: epub_to_txt_def write_file_def)

text \<open>C24. Write errors of a well-formed file system: once the book has been read, a target that is a directory raises IsADirectoryError, a target whose parent is a regular file raises NotADirectoryError, and a target whose parent is missing (in an existing directory) raises FileNotFoundError; nothing is written or printed.\<close>

theorem epub_to_txt_write_errors:
  assumes ok: "fs_ok st" and r: "read_file st epub_path = Inr raw" "read_epub env raw = Inr book"
  shows "(is_dir st txt_path \<longrightarrow> epub_to_txt env epub_path txt_path st = Inl IsADirectoryError) \<and>
         (is_file st (butlast txt_path) \<longrightarrow> epub_to_txt env epub_path txt_path st = Inl NotADirectoryError) \<and>
         (is_dir st (butlast (butlast txt_path)) \<and> \<not> is_dir st (butlast txt_path) \<and>
          \<not> is_file st (butlast txt_path) \<longrightarrow>
            epub_to_txt env epub_path txt_path st = Inl FileNotFoundError)"
proof (intro conjI impI)
  have w: "epub_to_txt env epub_path txt_path st =
             (case write_file st txt_path (book_text env book) of
                Inl e \<Rightarrow> Inl e | Inr st' \<Rightarrow> Inr (print_msg st' (MsgConverted epub_path txt_path)))"
    using r by (simp add: epub_to_txt_def)
  {
    assume "is_dir st txt_path"
    moreover have "is_dir st (butlast txt_path)"
      using fs_ok_dir_prefix [OF ok, of "butlast txt_path" "[last txt_path]"] calculation ok
      by (cases "txt_path = []") (auto simp: fs_ok_def)
    ultimately show "epub_to_txt env epub_path txt_path st = Inl IsADirectoryError"
      using w ancestor_error_parent_dir [OF ok] by (simp add: write_file_def)
  }
  {
    assume "is_dir st (butlast (butlast txt_path)) \<and> \<not> is_dir st (butlast txt_path) \<and>
      \<not> is_file st (butlast txt_path)"
    then have par: "is_dir st (butlast (butlast txt_path))" "\<not> is_dir st (butlast txt_path)"
      "\<not> is_file st (butlast txt_path)" by auto
    have "2 \<le> length txt_path"
    proof (rule ccontr)
      assume "\<not> 2 \<le> length txt_path"
      then have "length (butlast txt_path) = 0" by simp
      then have "butlast txt_path = []" by blast
      with par(2) ok show False by (simp add: fs_ok_def)
    qed
    then obtain xs c d where t: "txt_path = xs @ [c, d]" using length_two_decomp by blast
    show "epub_to_txt env epub_path txt_path st = Inl FileNotFoundError"
      using w par t ancestor_error_parent_step [OF ok, of "[]" xs c d]
      by (simp add: write_file_def butlast_append)
  }
  {
    assume f: "is_file st (butlast txt_path)"
    then have ne: "butlast txt_path \<noteq> []" using ok fs_ok_dir_not_file by (auto simp: fs_ok_def)
    then have "0 < length (butlast txt_path)" by blast
    then have "2 \<le> length txt_path" by simp
    then obtain xs c d where t: "txt_path = xs @ [c, d]" using length_two_decomp by blast
    have "is_dir st xs" using fs_ok_file_parent [OF ok f] t by (simp add: butlast_append)
    then show "epub_to_txt env epub_path txt_path st = Inl NotADirectoryError"
      using w f t ancestor_error_parent_step [OF ok, of "[]" xs c d]
      by (simp add: write_file_def butlast_append)
  }
qed

text \<open>C19. A book the EPUB reader rejects propagates its exception and writes nothing.\<close>

theorem epub_to_txt_read_error:
  assumes "read_file st epub_path = Inr raw" "read_epub env raw = Inl msg"
  shows "epub_to_txt env epub_path txt_path st = Inl (EpubReadError msg)"
  using assms by (simp add: epub_to_txt_def)

lemma convert_all_append:
  "convert_all env out (xs @ ys) st =
     (case convert_all env out xs st of (st1, None) \<Rightarrow> convert_all env out ys st1 | r \<Rightarrow> r)"
  by (induction xs arbitrary: st) (auto split: sum.splits option.splits prod.splits)

text \<open>C18. In batch mode the first file that fails ends the run: the outputs of the files before it stay written and the files after it are never converted.\<close>

theorem convert_all_stops_at_error:
  assumes "convert_all env out xs st = (st1, None)"
    and "epub_to_txt env f (target_txt out f) st1 = Inl e"
  shows "convert_all env out (xs @ f # ys) st = (st1, Some e)"
  using assms by (simp add: convert_all_append)

text \<open>C20. An input path that is not a directory raises ValueError with its message, before the output directory is created or anything is read.\<close>

theorem convert_directory_not_a_dir:
  assumes "\<not> is_dir st input_dir"
  shows "convert_directory env input_dir output_dir st =
           (st, Some (ValueError (not_a_dir_message input_dir)))"
  using assms by (simp add: convert_directory_def)

text \<open>C21. With no EPUB file in the input directory, the output directory is still created, the "no files" message is printed, and the run ends without error.\<close>

theorem convert_directory_no_epub_files:
  assumes "is_dir st input_dir" "mkdir_parents st output_dir = Inr st1" "epub_files st1 input_dir = []"
  shows "convert_directory env input_dir output_dir st = (print_msg st1 (MsgNoEpubFiles input_dir), None)"
  using assms by (simp add: convert_directory_def)

text \<open>C31. Frame: a batch run, successful or not, changes no file outside the output directory (the input books included) and removes no directory.\<close>

theorem convert_directory_frame:
  assumes q: "butlast q \<noteq> output_dir"
  shows "map_of (fs_files (fst (convert_directory env input_dir output_dir st))) q = map_of (fs_files st) q \<and>
   set (fs_dirs st) \<subseteq> set (fs_dirs (fst (convert_directory env input_dir output_dir st)))"
proof (cases "is_dir st input_dir \<and> (\<exists>st1. mkdir_parents st output_dir = Inr st1)")
  case True
  then obtain st1 where m: "mkdir_parents st output_dir = Inr st1" by blast
  from mkdir_parents_effect [OF m] obtain new
    where f1: "fs_files st1 = fs_files st" "fs_dirs st1 = fs_dirs st @ new" by blast
  have "convert_directory env input_dir output_dir st =
        (if epub_files st1 input_dir = [] then (print_msg st1 (MsgNoEpubFiles input_dir), None)
         else convert_all env output_dir (epub_files st1 input_dir) st1)"
    using True m by (simp add: convert_directory_def)
  then show ?thesis
    using f1 convert_all_frame [OF q, of env "epub_files st1 input_dir" st1]
    by (simp add: print_msg_def)
next
  case False
  then show ?thesis by (auto simp: convert_directory_def split: sum.splits)
qed

subsection \<open>Every file of a successful batch is converted\<close>

lemma epub_files_mkdir:
  assumes "fs_files st1 = fs_files st" "fs_dirs st1 = fs_dirs st @ new" "\<forall>q\<in>set new. \<not> is_file st q"
  shows "epub_files st1 d = epub_files st d"
proof -
  have f: "is_file st1 = is_file st" using assms(1) by (simp add: is_file_def fun_eq_iff)
  have "filter (\<lambda>p. is_file st p \<and> py_lower (path_suffix p) = ''.epub'') (filter (\<lambda>p. p \<noteq> [] \<and> butlast p = d) new) = []"
    using assms(3) by (simp add: filter_empty_conv)
  then show ?thesis using assms(1,2) by (simp add: epub_files_def iterdir_def f)
qed

lemma epub_to_txt_effect:
  "epub_to_txt env f t st = Inr st' \<Longrightarrow>
   fs_stdout st' = fs_stdout st @ [MsgConverted f t] \<and> is_file st' t \<and> (\<forall>q. is_file st q \<longrightarrow> is_file st' q)"
  by (auto simp: epub_to_txt_def write_file_def print_msg_def is_file_def update_conv' split: sum.splits if_splits option.splits)

lemma convert_all_is_file_mono:
  "is_file st q \<Longrightarrow> is_file (fst (convert_all env out fs st)) q"
  by (induction fs arbitrary: st) (auto split: sum.splits dest: epub_to_txt_effect)

lemma convert_all_success:
  "convert_all env out fs st = (st', None) \<Longrightarrow>
   fs_stdout st' = fs_stdout st @ map (\<lambda>f. MsgConverted f (target_txt out f)) fs \<and>
   list_all (\<lambda>f. is_file st' (target_txt out f)) fs"
proof (induction fs arbitrary: st)
  case (Cons f fs)
  then obtain st1 where e: "epub_to_txt env f (target_txt out f) st = Inr st1"
    and r: "convert_all env out fs st1 = (st', None)"
    by (auto split: sum.splits)
  note eff = epub_to_txt_effect [OF e]
  have "is_file st' (target_txt out f)"
    using convert_all_is_file_mono [of st1 "target_txt out f" env out fs] eff r by simp
  with Cons.IH [OF r] eff show ?case by simp
qed simp

text \<open>C39. A batch run that ends without an exception converts every EPUB file of the input directory: it prints one confirmation per file, in sorted order, and every target file exists at the end.\<close>
theorem convert_directory_converts_all:
  assumes r: "convert_directory env input_dir output_dir st = (st', None)"
    and ne: "epub_files st input_dir \<noteq> []"
  shows "fs_stdout st' =
           fs_stdout st @ map (\<lambda>f. MsgConverted f (target_txt output_dir f)) (epub_files st input_dir) \<and>
         list_all (\<lambda>f. is_file st' (target_txt output_dir f)) (epub_files st input_dir)"
proof -
  have d: "is_dir st input_dir" using r by (auto simp: convert_directory_def split: if_splits)
  then obtain st1 where m: "mkdir_parents st output_dir = Inr st1"
    using r by (auto simp: convert_directory_def split: sum.splits)
  from mkdir_parents_effect [OF m] obtain new where e: "fs_files st1 = fs_files st"
    "fs_stdout st1 = fs_stdout st" "fs_dirs st1 = fs_dirs st @ new" "\<forall>q\<in>set new. \<not> is_file st q"
    by blast
  have ef: "epub_files st1 input_dir = epub_files st input_dir"
    using epub_files_mkdir [OF e(1,3,4)] .
  have "convert_all env output_dir (epub_files st input_dir) st1 = (st', None)"
    using r d m ne ef by (simp add: convert_directory_def)
  from convert_all_success [OF this] e(2) show ?thesis by simp
qed

subsection \<open>Output paths\<close>

text \<open>C40. Output paths: the target of every EPUB file the batch selects lies directly in the output directory, has the suffix .txt, and keeps the stem of the book (a.b.EPUB gives a.b.txt).\<close>
theorem target_txt_type:
  assumes f: "f \<in> set (epub_files st d)"
  shows "butlast (target_txt out f) = out \<and> path_suffix (target_txt out f) = ''.txt'' \<and>
         path_stem (target_txt out f) = path_stem f"
proof -
  have "py_lower (path_suffix f) = ''.epub''" using f by (simp add: epub_files_def)
  then have "path_suffix f \<noteq> []" by (auto simp: py_lower_def)
  then obtain i where i: "last_dot (path_name f) = Some i" "0 < i" "i + 1 < length (path_name f)"
    by (auto simp: path_suffix_def Let_def split: option.splits if_splits)
  then have stem: "path_stem f = take i (path_name f)" by (simp add: path_stem_def)
  have ne: "0 < length (path_stem f)" using stem i by simp
  show ?thesis
    using ne by (simp add: target_txt_def path_suffix_def path_stem_def path_name_def last_dot_txt)
qed

subsection \<open>Examples and witnesses\<close>




theorem epub_to_txt_success_witness:
  "fs_ok batch_fs \<and> read_file batch_fs [''in'', ''b.epub''] = Inr ''B'' \<and>
   read_epub demo_env ''B'' = Inr \<lparr>spine = [SpineId ''c''], items = [\<lparr>item_id = ''c'', item_kind = ItemDocument, item_content = ''B''\<rparr>]\<rparr> \<and>
   is_dir batch_fs [] \<and> \<not> is_dir batch_fs [''b.txt''] \<and>
   map_of (fs_files (projr (epub_to_txt demo_env [''in'', ''b.epub''] [''b.txt''] batch_fs))) [''b.txt''] = Some ''B''"
proof -
  have h: "fs_ok batch_fs" "read_file batch_fs [''in'', ''b.epub''] = Inr ''B''"
    "read_epub demo_env ''B'' = Inr \<lparr>spine = [SpineId ''c''], items = [\<lparr>item_id = ''c'', item_kind = ItemDocument, item_content = ''B''\<rparr>]\<rparr>"
    "is_dir batch_fs (butlast [''b.txt''])" "\<not> is_dir batch_fs [''b.txt'']"
    by code_simp+
  have t: "book_text demo_env \<lparr>spine = [SpineId ''c''], items = [\<lparr>item_id = ''c'', item_kind = ItemDocument, item_content = ''B''\<rparr>]\<rparr> = ''B''"
    by code_simp
  show ?thesis
    using h epub_to_txt_success [OF h] t by (simp add: print_msg_def update_conv')
qed

theorem epub_to_txt_read_error_witness:
  "read_file batch_fs [''in'', ''b.epub''] = Inr ''B'' \<and>
   read_epub picky_env ''B'' = Inl ''Bad Zip file'' \<and>
   epub_to_txt picky_env [''in'', ''b.epub''] [''b.txt''] batch_fs = Inl (EpubReadError ''Bad Zip file'')"
proof -
  have h: "read_file batch_fs [''in'', ''b.epub''] = Inr ''B''"
    "read_epub picky_env ''B'' = Inl ''Bad Zip file''"
    by code_simp+
  show ?thesis using h epub_to_txt_read_error [OF h] by simp
qed

theorem convert_directory_not_a_dir_witness:
  "\<not> is_dir batch_fs [''missing''] \<and>
   convert_directory demo_env [''missing''] [''out''] batch_fs =
     (batch_fs, Some (ValueError (not_a_dir_message [''missing''])))"
proof -
  have h: "\<not> is_dir batch_fs [''missing'']" by code_simp
  show ?thesis using h convert_directory_not_a_dir [OF h] by simp
qed

theorem convert_directory_no_epub_files_witness:
  "is_dir notes_fs [''in''] \<and>
   mkdir_parents notes_fs [''out''] = Inr (notes_fs\<lparr>fs_dirs := [[], [''in''], [''out'']]\<rparr>) \<and>
   epub_files (notes_fs\<lparr>fs_dirs := [[], [''in''], [''out'']]\<rparr>) [''in''] = [] \<and>
   convert_directory demo_env [''in''] [''out''] notes_fs =
     (notes_fs\<lparr>fs_dirs := [[], [''in''], [''out'']], fs_stdout := [MsgNoEpubFiles [''in'']]\<rparr>, None)"
proof -
  have h: "is_dir notes_fs [''in'']"
    "mkdir_parents notes_fs [''out''] = Inr (notes_fs\<lparr>fs_dirs := [[], [''in''], [''out'']]\<rparr>)"
    "epub_files (notes_fs\<lparr>fs_dirs := [[], [''in''], [''out'']]\<rparr>) [''in''] = []"
    by code_simp+
  show ?thesis
    using h convert_directory_no_epub_files [OF h, of demo_env] by (simp add: print_msg_def notes_fs_def)
qed

theorem convert_all_stops_at_error_witness:
  "convert_all picky_env [''out''] [[''in'', ''a.EPUB'']] (batch_fs\<lparr>fs_dirs := [[], [''in''], [''out'']]\<rparr>) =
     (batch_fs\<lparr>fs_dirs := [[], [''in''], [''out'']],
               fs_files := fs_files batch_fs @ [([''out'', ''a.txt''], ''A'')],
               fs_stdout := [MsgConverted [''in'', ''a.EPUB''] [''out'', ''a.txt'']]\<rparr>, None) \<and>
   epub_to_txt picky_env [''in'', ''b.epub''] (target_txt [''out''] [''in'', ''b.epub''])
     (batch_fs\<lparr>fs_dirs := [[], [''in''], [''out'']],
               fs_files := fs_files batch_fs @ [([''out'', ''a.txt''], ''A'')],
               fs_stdout := [MsgConverted [''in'', ''a.EPUB''] [''out'', ''a.txt'']]\<rparr>) =
     Inl (EpubReadError ''Bad Zip file'') \<and>
   convert_all picky_env [''out''] [[''in'', ''a.EPUB''], [''in'', ''b.epub'']]
     (batch_fs\<lparr>fs_dirs := [[], [''in''], [''out'']]\<rparr>) =
     (batch_fs\<lparr>fs_dirs := [[], [''in''], [''out'']],
               fs_files := fs_files batch_fs @ [([''out'', ''a.txt''], ''A'')],
               fs_stdout := [MsgConverted [''in'', ''a.EPUB''] [''out'', ''a.txt'']]\<rparr>, Some (EpubReadError ''Bad Zip file''))"
proof -
  have h: "convert_all picky_env [''out''] [[''in'', ''a.EPUB'']] (batch_fs\<lparr>fs_dirs := [[], [''in''], [''out'']]\<rparr>) =
     (batch_fs\<lparr>fs_dirs := [[], [''in''], [''out'']],
               fs_files := fs_files batch_fs @ [([''out'', ''a.txt''], ''A'')],
               fs_stdout := [MsgConverted [''in'', ''a.EPUB''] [''out'', ''a.txt'']]\<rparr>, None)"
    "epub_to_txt picky_env [''in'', ''b.epub''] (target_txt [''out''] [''in'', ''b.epub''])
     (batch_fs\<lparr>fs_dirs := [[], [''in''], [''out'']],
               fs_files := fs_files batch_fs @ [([''out'', ''a.txt''], ''A'')],
               fs_stdout := [MsgConverted [''in'', ''a.EPUB''] [''out'', ''a.txt'']]\<rparr>) =
     Inl (EpubReadError ''Bad Zip file'')"
    by code_simp+
  show ?thesis using h convert_all_stops_at_error [OF h, of "[]"] by simp
qed

theorem convert_directory_frame_witness:
  "butlast [''in'', ''b.epub''] \<noteq> [''out''] \<and>
   map_of (fs_files (fst (convert_directory demo_env [''in''] [''out''] batch_fs))) [''in'', ''b.epub''] = Some ''B'' \<and>
   set (fs_dirs batch_fs) \<subseteq> set (fs_dirs (fst (convert_directory demo_env [''in''] [''out''] batch_fs)))"
  using convert_directory_frame [of "[''in'', ''b.epub'']" "[''out'']" demo_env "[''in'']" batch_fs]
  by (simp add: batch_fs_def)

theorem convert_directory_converts_all_witness:
  "convert_directory demo_env [''in''] [''out''] batch_fs =
     (fst (convert_directory demo_env [''in''] [''out''] batch_fs), None) \<and>
   epub_files batch_fs [''in''] = [[''in'', ''a.EPUB''], [''in'', ''b.epub'']] \<and>
   fs_stdout (fst (convert_directory demo_env [''in''] [''out''] batch_fs)) =
     [MsgConverted [''in'', ''a.EPUB''] [''out'', ''a.txt''], MsgConverted [''in'', ''b.epub''] [''out'', ''b.txt'']] \<and>
   list_all (\<lambda>f. is_file (fst (convert_directory demo_env [''in''] [''out''] batch_fs)) (target_txt [''out''] f))
     (epub_files batch_fs [''in''])"
proof -
  have h: "convert_directory demo_env [''in''] [''out''] batch_fs =
             (fst (convert_directory demo_env [''in''] [''out''] batch_fs), None)"
    "epub_files batch_fs [''in''] = [[''in'', ''a.EPUB''], [''in'', ''b.epub'']]"
    "target_txt [''out''] [''in'', ''a.EPUB''] = [''out'', ''a.txt'']"
    "target_txt [''out''] [''in'', ''b.epub''] = [''out'', ''b.txt'']"
    by code_simp+
  have b: "fs_stdout batch_fs = []" by (simp add: batch_fs_def)
  show ?thesis
    using h convert_directory_converts_all [OF h(1)] b by simp
qed

theorem target_txt_type_witness:
  "[''in'', ''a.b.EPUB''] \<in> set (epub_files (batch_fs\<lparr>fs_files := [([''in'', ''a.b.EPUB''], ''x'')]\<rparr>) [''in'']) \<and>
   target_txt [''out''] [''in'', ''a.b.EPUB''] = [''out'', ''a.b.txt''] \<and>
   path_suffix [''out'', ''a.b.txt''] = ''.txt'' \<and> path_stem [''out'', ''a.b.txt''] = ''a.b''"
proof -
  have h: "[''in'', ''a.b.EPUB''] \<in> set (epub_files (batch_fs\<lparr>fs_files := [([''in'', ''a.b.EPUB''], ''x'')]\<rparr>) [''in''])"
    "target_txt [''out''] [''in'', ''a.b.EPUB''] = [''out'', ''a.b.txt'']"
    "path_stem [''in'', ''a.b.EPUB''] = ''a.b''"
    by code_simp+
  show ?thesis using h target_txt_type [OF h(1), of "[''out'']"] by simp
qed

theorem epub_to_txt_write_errors_witness:
  "fs_ok batch_fs \<and> read_file batch_fs [''in'', ''b.epub''] = Inr ''B'' \<and>
   read_epub demo_env ''B'' = Inr \<lparr>spine = [SpineId ''c''], items = [\<lparr>item_id = ''c'', item_kind = ItemDocument, item_content = ''B''\<rparr>]\<rparr> \<and>
   epub_to_txt demo_env [''in'', ''b.epub''] [''in''] batch_fs = Inl IsADirectoryError \<and>
   epub_to_txt demo_env [''in'', ''b.epub''] [''in'', ''b.epub'', ''x.txt''] batch_fs = Inl NotADirectoryError \<and>
   epub_to_txt demo_env [''in'', ''b.epub''] [''out'', ''b.txt''] batch_fs = Inl FileNotFoundError"
proof -
  have h: "fs_ok batch_fs" "read_file batch_fs [''in'', ''b.epub''] = Inr ''B''"
    "read_epub demo_env ''B'' = Inr \<lparr>spine = [SpineId ''c''], items = [\<lparr>item_id = ''c'', item_kind = ItemDocument, item_content = ''B''\<rparr>]\<rparr>"
    by code_simp+
  have p: "is_dir batch_fs [''in'']" "is_file batch_fs (butlast [''in'', ''b.epub'', ''x.txt''])"
    "is_dir batch_fs (butlast (butlast [''out'', ''b.txt'']))" "\<not> is_dir batch_fs (butlast [''out'', ''b.txt''])"
    "\<not> is_file batch_fs (butlast [''out'', ''b.txt''])"
    by code_simp+
  show ?thesis
    using h p epub_to_txt_write_errors [OF h, of "[''in'']"]
      epub_to_txt_write_errors [OF h, of "[''in'', ''b.epub'', ''x.txt'']"]
      epub_to_txt_write_errors [OF h, of "[''out'', ''b.txt'']"]
    by simp
qed

end
