(* ===== verification/Cli.thy ===== *)
theory Cli
  imports Convert
begin

text \<open>
  The command line, \<open>main\<close> (\<open>src/epub_to_txt.py\<close> lines 97--119), over the
  namespace \<open>build_parser\<close> (lines 86--94) makes argparse return: four optional
  strings, \<open>None\<close> when the option is absent.  How argparse computes it from
  \<open>sys.argv\<close> is the theory \<open>Argparse\<close>.  \<open>parser.error\<close> prints the usage and the message
  and exits with status 2: the value \<open>UsageError msg\<close>, with nothing done.  The
  tests are Python truthiness tests, so an option given as the empty string counts as
  absent.
\<close>

record cli_args =
  input_file :: "string option"
  output_file :: "string option"
  input_dir :: "string option"
  output_dir :: "string option"

definition truthy :: "string option \<Rightarrow> bool" where
  "truthy v = (case v of None \<Rightarrow> False | Some s \<Rightarrow> s \<noteq> [])"

definition arg_str :: "string option \<Rightarrow> string" where
  "arg_str v = (case v of None \<Rightarrow> [] | Some s \<Rightarrow> s)"

text \<open>\<open>Path(s).parts\<close>: the components between slashes, without empty and \<open>.\<close>
  components; an absolute path keeps a first component \<open>/\<close>.  The model's file system
  is rooted at the working directory, and \<open>..\<close> is kept as a plain component.\<close>

fun split_slash :: "string \<Rightarrow> string \<Rightarrow> string list" where
  "split_slash cur [] = [cur]"
| "split_slash cur (c # s) = (if c = CHR ''/'' then cur # split_slash [] s else split_slash (cur @ [c]) s)"

definition parse_path :: "string \<Rightarrow> path" where
  "parse_path s =
     (if s \<noteq> [] \<and> hd s = CHR ''/'' then [''/''] else []) @
     filter (\<lambda>c. c \<noteq> [] \<and> c \<noteq> ''.'') (split_slash [] s)"

definition msg_both_modes :: string where
  "msg_both_modes = ''Specify either file arguments or directory arguments, not both.''"

definition msg_file_pair :: string where
  "msg_file_pair = ''Both --input-file and --output-file must be provided for single-file conversion.''"

definition msg_dir_pair :: string where
  "msg_dir_pair = ''Both --input-dir and --output-dir must be provided for batch conversion.''"

definition msg_no_mode :: string where
  "msg_no_mode = ''Please provide either --input-file/--output-file for single conversion '' @
                 ''or --input-dir/--output-dir for batch conversion.''"

definition run_of :: "fs \<Rightarrow> py_error + fs \<Rightarrow> run" where
  "run_of st r = (case r of Inl e \<Rightarrow> (st, Some e) | Inr st' \<Rightarrow> (st', None))"

text \<open>Lines 101--119.\<close>

definition main :: "collab \<Rightarrow> cli_args \<Rightarrow> fs \<Rightarrow> run" where
  "main env args st =
     (let file_mode = truthy (input_file args) \<or> truthy (output_file args);
          dir_mode = truthy (input_dir args) \<or> truthy (output_dir args)
      in if file_mode \<and> dir_mode then (st, Some (UsageError msg_both_modes))
         else if truthy (input_file args) \<or> truthy (output_file args) then
           (if \<not> (truthy (input_file args) \<and> truthy (output_file args))
            then (st, Some (UsageError msg_file_pair))
            else run_of st (epub_to_txt env (parse_path (arg_str (input_file args)))
                                            (parse_path (arg_str (output_file args))) st))
         else if truthy (input_dir args) \<or> truthy (output_dir args) then
           (if \<not> (truthy (input_dir args) \<and> truthy (output_dir args))
            then (st, Some (UsageError msg_dir_pair))
            else convert_directory env (parse_path (arg_str (input_dir args)))
                                       (parse_path (arg_str (output_dir args))) st)
         else (st, Some (UsageError msg_no_mode)))"

text \<open>The spec's rule (section 6): exactly one complete pair of options.\<close>

definition cli_valid :: "cli_args \<Rightarrow> bool" where
  "cli_valid args \<longleftrightarrow>
     (truthy (input_file args) \<and> truthy (output_file args) \<and>
      \<not> truthy (input_dir args) \<and> \<not> truthy (output_dir args)) \<or>
     (truthy (input_dir args) \<and> truthy (output_dir args) \<and>
      \<not> truthy (input_file args) \<and> \<not> truthy (output_file args))"

definition is_usage_error :: "py_error option \<Rightarrow> bool" where
  "is_usage_error r = (case r of Some (UsageError m) \<Rightarrow> True | _ \<Rightarrow> False)"

text \<open>The exceptions other than a usage error: those of the file system and the reader.\<close>

definition io_error :: "py_error \<Rightarrow> bool" where
  "io_error e = (case e of UsageError m \<Rightarrow> False | _ \<Rightarrow> True)"


subsection \<open>Only main raises usage errors\<close>

lemma ancestor_error_io: "ancestor_error st pre cs = Some e \<Longrightarrow> io_error e"
  by (induction st pre cs rule: ancestor_error.induct) (auto simp: Let_def io_error_def split: if_splits)

lemma os_mkdir_io: "os_mkdir st p = Inl e \<Longrightarrow> io_error e"
  by (auto simp: os_mkdir_def io_error_def split: if_splits option.splits dest: ancestor_error_io)

lemma mkdir_parents_io: "mkdir_parents st p = Inl e \<Longrightarrow> io_error e"
proof (induction st p rule: mkdir_parents.induct)
  case (1 st p)
  note eq = mkdir_parents.simps [of st p]
  show ?case
  proof (cases "os_mkdir st p")
    case (Inr s)
    with "1.prems" eq show ?thesis by simp
  next
    case (Inl e')
    show ?thesis
    proof (cases "e' = FileNotFoundError \<and> p \<noteq> []")
      case True
      with Inl "1.prems" eq "1.IH" show ?thesis
        by (auto simp: io_error_def split: sum.splits if_splits dest: os_mkdir_io)
    next
      case False
      with Inl "1.prems" eq os_mkdir_io [OF Inl] show ?thesis
        by (cases e') (auto simp: io_error_def split: if_splits)
    qed
  qed
qed

lemma read_file_io: "read_file st p = Inl e \<Longrightarrow> io_error e"
  by (auto simp: read_file_def io_error_def split: if_splits option.splits dest: ancestor_error_io)

lemma write_file_io: "write_file st p s = Inl e \<Longrightarrow> io_error e"
  by (auto simp: write_file_def io_error_def split: if_splits option.splits dest: ancestor_error_io)

lemma epub_to_txt_io: "epub_to_txt env p t st = Inl e \<Longrightarrow> io_error e"
  by (auto simp: epub_to_txt_def io_error_def split: sum.splits dest: read_file_io write_file_io)

lemma convert_all_io: "snd (convert_all env out fs st) = Some e \<Longrightarrow> io_error e"
  by (induction fs arbitrary: st) (auto split: sum.splits dest: epub_to_txt_io)

lemma convert_directory_io: "snd (convert_directory env d out st) = Some e \<Longrightarrow> io_error e"
  by (auto simp: convert_directory_def Let_def io_error_def split: if_splits sum.splits
      dest: mkdir_parents_io convert_all_io)

lemma io_not_usage: "io_error e \<Longrightarrow> \<not> is_usage_error (Some e)"
  by (cases e) (simp_all add: io_error_def is_usage_error_def)

lemma usage_error_iff_invalid:
  "is_usage_error (snd (main env args st)) \<longleftrightarrow> \<not> cli_valid args"
proof (cases "cli_valid args")
  case True
  have "\<not> is_usage_error (snd (run_of st (epub_to_txt env p t st)))" for p t
  proof (cases "epub_to_txt env p t st")
    case (Inl e)
    then have "io_error e" by (rule epub_to_txt_io)
    with Inl show ?thesis by (simp add: run_of_def io_not_usage)
  next
    case (Inr s)
    then show ?thesis by (simp add: run_of_def is_usage_error_def)
  qed
  moreover have "\<not> is_usage_error (snd (convert_directory env d out st))" for d out
  proof (cases "snd (convert_directory env d out st)")
    case (Some e)
    then have "io_error e" by (rule convert_directory_io)
    with Some show ?thesis by (simp add: io_not_usage)
  next
    case None
    then show ?thesis by (simp add: is_usage_error_def)
  qed
  ultimately show ?thesis using True
    by (auto simp: main_def cli_valid_def Let_def)
next
  case False
  then show ?thesis
    by (auto simp: main_def cli_valid_def Let_def is_usage_error_def)
qed

subsection \<open>Dispatch\<close>

lemma main_rejects_invalid:
  "\<not> cli_valid args \<Longrightarrow> \<exists>m. main env args st = (st, Some (UsageError m))"
  by (auto simp: main_def cli_valid_def Let_def)

text \<open>C14. main ends with a usage error exactly when the arguments are not one complete pair of options (both file options, or both directory options, and nothing of the other mode); invalid arguments are rejected by parser.error before anything is read, written or created.\<close>

theorem main_usage_error_iff:
  "(is_usage_error (snd (main env args st)) \<longleftrightarrow> \<not> cli_valid args) \<and>
   (\<not> cli_valid args \<longrightarrow> (\<exists>m. main env args st = (st, Some (UsageError m))))"
  using usage_error_iff_invalid main_rejects_invalid by blast

lemma main_file_mode:
  assumes "truthy (input_file args)" "truthy (output_file args)"
    "\<not> truthy (input_dir args)" "\<not> truthy (output_dir args)"
  shows "main env args st =
           run_of st (epub_to_txt env (parse_path (arg_str (input_file args)))
                                      (parse_path (arg_str (output_file args))) st)"
  using assms by (simp add: main_def)

lemma main_dir_mode:
  assumes "truthy (input_dir args)" "truthy (output_dir args)"
    "\<not> truthy (input_file args)" "\<not> truthy (output_file args)"
  shows "main env args st =
           convert_directory env (parse_path (arg_str (input_dir args)))
                                 (parse_path (arg_str (output_dir args))) st"
  using assms by (simp add: main_def)

text \<open>C23. Dispatch: with both file options and no directory option main runs epub_to_txt on the two paths, with both directory options and no file option it runs convert_directory on them, and the outcome is main's.\<close>

theorem main_dispatch:
  "(truthy (input_file args) \<and> truthy (output_file args) \<and>
    \<not> truthy (input_dir args) \<and> \<not> truthy (output_dir args) \<longrightarrow>
      main env args st =
        run_of st (epub_to_txt env (parse_path (arg_str (input_file args)))
                                   (parse_path (arg_str (output_file args))) st)) \<and>
   (truthy (input_dir args) \<and> truthy (output_dir args) \<and>
    \<not> truthy (input_file args) \<and> \<not> truthy (output_file args) \<longrightarrow>
      main env args st =
        convert_directory env (parse_path (arg_str (input_dir args)))
                              (parse_path (arg_str (output_dir args))) st)"
  using main_file_mode main_dir_mode by blast


theorem main_usage_error_iff_witness:
  "\<not> cli_valid \<lparr>input_file = Some ''a.epub'', output_file = None, input_dir = Some ''in'', output_dir = None\<rparr> \<and>
   main demo_env \<lparr>input_file = Some ''a.epub'', output_file = None, input_dir = Some ''in'', output_dir = None\<rparr> batch_fs =
     (batch_fs, Some (UsageError msg_both_modes))"
proof -
  have h: "\<not> cli_valid \<lparr>input_file = Some ''a.epub'', output_file = None, input_dir = Some ''in'', output_dir = None\<rparr>"
    by (simp add: cli_valid_def truthy_def)
  from main_usage_error_iff [of demo_env _ batch_fs] h show ?thesis
    by (simp add: main_def truthy_def)
qed

theorem main_dispatch_witness:
  "main demo_env \<lparr>input_file = Some ''in/b.epub'', output_file = Some ''b.txt'', input_dir = None, output_dir = None\<rparr> batch_fs =
     run_of batch_fs (epub_to_txt demo_env [''in'', ''b.epub''] [''b.txt''] batch_fs) \<and>
   main demo_env \<lparr>input_file = None, output_file = None, input_dir = Some ''in'', output_dir = Some ''out''\<rparr> batch_fs =
     convert_directory demo_env [''in''] [''out''] batch_fs"
proof -
  have p: "parse_path ''in/b.epub'' = [''in'', ''b.epub'']" "parse_path ''b.txt'' = [''b.txt'']"
    "parse_path ''in'' = [''in'']" "parse_path ''out'' = [''out'']"
    by code_simp+
  show ?thesis
    using main_dispatch [of "\<lparr>input_file = Some ''in/b.epub'', output_file = Some ''b.txt'', input_dir = None, output_dir = None\<rparr>" demo_env batch_fs]
      main_dispatch [of "\<lparr>input_file = None, output_file = None, input_dir = Some ''in'', output_dir = Some ''out''\<rparr>" demo_env batch_fs] p
    by (simp add: arg_str_def truthy_def)
qed

end
