(* ===== verification/Argparse.thy ===== *)
theory Argparse
  imports Cli "HOL-Library.Sublist"
begin

text \<open>
  The parser \<open>build_parser\<close> builds (\<open>src/epub_to_txt.py\<close> lines 86--94) and the
  parse of \<open>sys.argv\<close> it performs at line 99, as CPython's \<open>argparse.py\<close>
  (3.11) implements \<open>parse_args\<close>: every argument string is first classified
  (\<open>_parse_optional\<close>, which rejects an ambiguous abbreviation at once), then the
  classified strings are consumed left to right (\<open>consume_optional\<close>), the
  help action exiting as soon as it is taken, and the strings no option consumed are
  reported together at the end.  The namespace is the record \<open>Cli.cli_args\<close>; the
  entry point \<open>script\<close> (lines 97--99 and 122--123) feeds it to \<open>Cli.main\<close>.
\<close>

subsection \<open>The parser\<close>

datatype dest = DInputFile | DOutputFile | DInputDir | DOutputDir

datatype action = AHelp | AStore dest

type_synonym option_table = "(string \<times> action) list"

text \<open>\<open>_option_string_actions\<close> in insertion order: \<open>-h\<close>/\<open>--help\<close> come from
  \<open>add_help=True\<close>, the four store actions from lines 90--93 (no \<open>nargs\<close>, so
  each takes exactly one argument; default \<open>None\<close>).\<close>

definition build_parser :: option_table where
  "build_parser =
     [(''-h'', AHelp), (''--help'', AHelp),
      (''--input-file'', AStore DInputFile), (''--output-file'', AStore DOutputFile),
      (''--input-dir'', AStore DInputDir), (''--output-dir'', AStore DOutputDir)]"

text \<open>\<open>_get_action_name\<close>: the option strings of the action joined by slashes.\<close>

definition action_name :: "option_table \<Rightarrow> action \<Rightarrow> string" where
  "action_name opts a = py_join ''/'' (map fst (filter (\<lambda>(ostr, b). b = a) opts))"

definition empty_namespace :: cli_args where
  "empty_namespace = \<lparr>input_file = None, output_file = None, input_dir = None, output_dir = None\<rparr>"

text \<open>\<open>_StoreAction.__call__\<close>: \<open>setattr(namespace, dest, value)\<close>.\<close>

fun set_dest :: "dest \<Rightarrow> string \<Rightarrow> cli_args \<Rightarrow> cli_args" where
  "set_dest DInputFile v ns = ns\<lparr>input_file := Some v\<rparr>"
| "set_dest DOutputFile v ns = ns\<lparr>output_file := Some v\<rparr>"
| "set_dest DInputDir v ns = ns\<lparr>input_dir := Some v\<rparr>"
| "set_dest DOutputDir v ns = ns\<lparr>output_dir := Some v\<rparr>"

subsection \<open>Python helpers: partition, repr, the negative-number pattern\<close>

definition py_partition :: "char \<Rightarrow> string \<Rightarrow> string \<times> bool \<times> string" where
  "py_partition c s = (takeWhile (\<lambda>x. x \<noteq> c) s, c \<in> set s, drop 1 (dropWhile (\<lambda>x. x \<noteq> c) s))"

text \<open>\<open>str.isprintable\<close> on Latin-1: the ASCII graphic characters and space, and
  the characters from 0xA1 on except the soft hyphen 0xAD.\<close>

definition py_printable :: "char \<Rightarrow> bool" where
  "py_printable c = (let n = of_char c :: nat in (32 \<le> n \<and> n < 127) \<or> (161 \<le> n \<and> n \<noteq> 173))"

definition hex_digit :: "nat \<Rightarrow> char" where
  "hex_digit n = ''0123456789abcdef'' ! n"

definition repr_char :: "char \<Rightarrow> char \<Rightarrow> string" where
  "repr_char q c =
     (if c = q \<or> c = CHR 0x5C then [CHR 0x5C, c]
      else if c = CHR 0x09 then [CHR 0x5C, CHR ''t'']
      else if c = CHR 0x0A then [CHR 0x5C, CHR ''n'']
      else if c = CHR 0x0D then [CHR 0x5C, CHR ''r'']
      else if \<not> py_printable c then
        [CHR 0x5C, CHR ''x'', hex_digit (of_char c div 16), hex_digit (of_char c mod 16)]
      else [c])"

text \<open>\<open>repr(s)\<close> of a string: single quotes unless the string holds a single quote
  and no double quote.\<close>

definition py_repr :: "string \<Rightarrow> string" where
  "py_repr s =
     (let q = (if CHR 0x27 \<in> set s \<and> CHR 0x22 \<notin> set s then CHR 0x22 else CHR 0x27)
      in q # concat (map (repr_char q) s) @ [q])"

definition is_digit :: "char \<Rightarrow> bool" where
  "is_digit c \<longleftrightarrow> CHR ''0'' \<le> c \<and> c \<le> CHR ''9''"

text \<open>The body of \<open>^-\d+$|^-\d*\.\d+$\<close>.\<close>

definition neg_body :: "string \<Rightarrow> bool" where
  "neg_body b \<longleftrightarrow>
     (b \<noteq> [] \<and> list_all is_digit b) \<or>
     (case py_partition CHR ''.'' b of (x, sep, y) \<Rightarrow>
        sep \<and> list_all is_digit x \<and> y \<noteq> [] \<and> list_all is_digit y)"

text \<open>\<open>_negative_number_matcher.match\<close>: \<open>$\<close> also matches before a final line feed.\<close>

definition negative_number :: "string \<Rightarrow> bool" where
  "negative_number s =
     (case s of [] \<Rightarrow> False
      | c # b \<Rightarrow> c = CHR ''-'' \<and> (neg_body b \<or> (b \<noteq> [] \<and> last b = CHR 0x0A \<and> neg_body (butlast b))))"

subsection \<open>Classification of the argument strings\<close>

text \<open>The pattern letter of an argument string: \<open>A\<close>, \<open>-\<close> for \<open>--\<close>, or \<open>O\<close>
  with the option tuple \<open>(action, option_string, sep, explicit_arg)\<close>; the action
  is \<open>None\<close> for an unknown option, and \<open>sep\<close> records whether it is \<open>=\<close>
  (the only use the code makes of it is its truth value).\<close>

datatype kind = KArg | KDashDash | KOpt "action option" string bool "string option"

text \<open>\<open>_get_option_tuples\<close> (\<open>allow_abbrev=True\<close>), for a string of at least two
  characters starting with \<open>-\<close>.\<close>

definition option_tuples :: "option_table \<Rightarrow> string \<Rightarrow> (action \<times> string \<times> bool \<times> string option) list" where
  "option_tuples opts s =
     (if s ! 1 = CHR ''-'' then
        (case py_partition CHR ''='' s of (pre, sep, e) \<Rightarrow>
           map (\<lambda>(ostr, a). (a, ostr, sep, if sep then Some e else None))
               (filter (\<lambda>(ostr, a). prefix pre ostr) opts))
      else
        concat (map (\<lambda>(ostr, a). if ostr = take 2 s then [(a, ostr, False, Some (drop 2 s))]
                              else if prefix s ostr then [(a, ostr, False, None)] else []) opts))"

definition ambiguous_message :: "string \<Rightarrow> (action \<times> string \<times> bool \<times> string option) list \<Rightarrow> string" where
  "ambiguous_message s ts =
     ''ambiguous option: '' @ s @ '' could match '' @ py_join '', '' (map (\<lambda>(a, ostr, sep, e). ostr) ts)"

text \<open>\<open>_parse_optional\<close>; the parser has no option that looks like a negative
  number, so such strings are arguments.\<close>

definition parse_optional :: "option_table \<Rightarrow> string \<Rightarrow> string + kind" where
  "parse_optional opts s =
     (if s = [] \<or> hd s \<noteq> CHR ''-'' then Inr KArg
      else case map_of opts s of
        Some a \<Rightarrow> Inr (KOpt (Some a) s False None)
      | None \<Rightarrow>
          if length s = 1 then Inr KArg
          else case py_partition CHR ''='' s of (ostr, sep, e) \<Rightarrow>
            if sep \<and> map_of opts ostr \<noteq> None then Inr (KOpt (map_of opts ostr) ostr True (Some e))
            else case option_tuples opts s of
              [] \<Rightarrow> if negative_number s \<or> CHR '' '' \<in> set s then Inr KArg
                    else Inr (KOpt None s False None)
            | [(a, ostr', sep', e')] \<Rightarrow> Inr (KOpt (Some a) ostr' sep' e')
            | ts \<Rightarrow> Inl (ambiguous_message s ts))"

text \<open>The first loop of \<open>_parse_known_args\<close>: everything after \<open>--\<close> is an
  argument; the first ambiguous option ends the parse.\<close>

fun classify :: "option_table \<Rightarrow> string list \<Rightarrow> string + (string \<times> kind) list" where
  "classify opts [] = Inr []"
| "classify opts (s # ss) =
     (if s = ''--'' then Inr ((s, KDashDash) # map (\<lambda>x. (x, KArg)) ss)
      else case parse_optional opts s of
        Inl m \<Rightarrow> Inl m
      | Inr k \<Rightarrow> (case classify opts ss of Inl m \<Rightarrow> Inl m | Inr ts \<Rightarrow> Inr ((s, k) # ts)))"

subsection \<open>Consumption\<close>

datatype parse_result = ParseOk cli_args | ParseHelp | ParseError string

definition ignored_message :: "option_table \<Rightarrow> action \<Rightarrow> string \<Rightarrow> string" where
  "ignored_message opts a e = ''argument '' @ action_name opts a @ '': ignored explicit argument '' @ py_repr e"

definition expected_message :: "option_table \<Rightarrow> action \<Rightarrow> string" where
  "expected_message opts a = ''argument '' @ action_name opts a @ '': expected one argument''"

definition next_is_arg :: "(string \<times> kind) list \<Rightarrow> bool" where
  "next_is_arg ts = (case ts of (v, KArg) # _ \<Rightarrow> True | _ \<Rightarrow> False)"

text \<open>The loop of \<open>consume_optional\<close> for an action reached with an explicit
  argument after the help action: a single-dash option that takes no argument reads
  the rest of its string as further single-dash options (\<open>-hh\<close>).  It returns the
  error that ends the loop, or \<open>Inr ()\<close> when the loop ends and the collected
  actions are taken, the help action first.\<close>

fun cluster :: "option_table \<Rightarrow> (string \<times> kind) list \<Rightarrow> action \<Rightarrow> string \<Rightarrow> bool \<Rightarrow> string \<Rightarrow> string + unit" where
  "cluster opts ts (AStore d) ostr sep e = Inr ()"
| "cluster opts ts AHelp ostr sep e =
     (if ostr ! 1 \<noteq> CHR ''-'' \<and> e \<noteq> [] then
        (if sep \<or> hd e = CHR ''-'' then Inl (ignored_message opts AHelp e)
         else case map_of opts [CHR ''-'', hd e] of
           None \<Rightarrow> Inr ()
         | Some a' \<Rightarrow>
             if tl e = [] then
               (case a' of AHelp \<Rightarrow> Inr ()
                | AStore d \<Rightarrow> if next_is_arg ts then Inr () else Inl (expected_message opts a'))
             else if hd (tl e) = CHR ''='' then cluster opts ts a' [CHR ''-'', hd e] True (tl (tl e))
             else cluster opts ts a' [CHR ''-'', hd e] False (tl e))
      else Inl (ignored_message opts AHelp e))"

text \<open>The second loop of \<open>_parse_known_args\<close> (the parser has no positionals, so
  \<open>consume_positionals\<close> consumes nothing), then \<open>parse_args\<close>' test of the
  extras.\<close>

fun consume :: "option_table \<Rightarrow> (string \<times> kind) list \<Rightarrow> cli_args \<Rightarrow> string list \<Rightarrow> parse_result" where
  "consume opts [] ns extras =
     (if extras = [] then ParseOk ns
      else ParseError (''unrecognized arguments: '' @ py_join '' '' extras))"
| "consume opts ((s, KArg) # ts) ns extras = consume opts ts ns (extras @ [s])"
| "consume opts ((s, KDashDash) # ts) ns extras = consume opts ts ns (extras @ [s])"
| "consume opts ((s, KOpt None ostr sep e) # ts) ns extras = consume opts ts ns (extras @ [s])"
| "consume opts ((s, KOpt (Some (AStore d)) ostr sep (Some e)) # ts) ns extras =
     consume opts ts (set_dest d e ns) extras"
| "consume opts ((s, KOpt (Some (AStore d)) ostr sep None) # ts) ns extras =
     (case ts of
        (v, KArg) # ts' \<Rightarrow> consume opts ts' (set_dest d v ns) extras
      | _ \<Rightarrow> ParseError (expected_message opts (AStore d)))"
| "consume opts ((s, KOpt (Some AHelp) ostr sep None) # ts) ns extras = ParseHelp"
| "consume opts ((s, KOpt (Some AHelp) ostr sep (Some e)) # ts) ns extras =
     (case cluster opts ts AHelp ostr sep e of Inl m \<Rightarrow> ParseError m | Inr u \<Rightarrow> ParseHelp)"

definition parse_args :: "option_table \<Rightarrow> string list \<Rightarrow> parse_result" where
  "parse_args opts argv =
     (case classify opts argv of
        Inl m \<Rightarrow> ParseError m
      | Inr ts \<Rightarrow> consume opts ts empty_namespace [])"

subsection \<open>The entry point\<close>

text \<open>Lines 97--99 and 122--123: parse \<open>sys.argv[1:]\<close>; the help action prints the
  help (\<open>MsgHelp\<close>) and exits with status 0; a parse error is \<open>parser.error\<close>,
  the same usage error \<open>main\<close> raises; otherwise \<open>main\<close> runs on the namespace.\<close>

definition script :: "collab \<Rightarrow> string list \<Rightarrow> fs \<Rightarrow> run" where
  "script env argv st =
     (case parse_args build_parser argv of
        ParseOk args \<Rightarrow> main env args st
      | ParseHelp \<Rightarrow> (print_msg st MsgHelp, None)
      | ParseError m \<Rightarrow> (st, Some (UsageError m)))"


text \<open>The command line that sets exactly the options of a namespace, one
  \<open>--option=value\<close> argument each, in the order of the parser.\<close>

definition opt_arg :: "string \<Rightarrow> string option \<Rightarrow> string list" where
  "opt_arg k v = (case v of None \<Rightarrow> [] | Some x \<Rightarrow> [k @ CHR ''='' # x])"

definition render_args :: "cli_args \<Rightarrow> string list" where
  "render_args a =
     opt_arg ''--input-file'' (input_file a) @ opt_arg ''--output-file'' (output_file a) @
     opt_arg ''--input-dir'' (input_dir a) @ opt_arg ''--output-dir'' (output_dir a)"

subsection \<open>Properties of the parser\<close>

lemma build_parser_keys:
  "(k, a) \<in> set build_parser \<Longrightarrow> k \<noteq> [] \<and> hd k = CHR ''-'' \<and> CHR ''='' \<notin> set k \<and> k \<noteq> ''--''"
  by (auto simp: build_parser_def)

lemma py_partition_append:
  "c \<notin> set xs \<Longrightarrow> py_partition c (xs @ c # ys) = (xs, True, ys)"
  by (induction xs) (auto simp: py_partition_def)

lemma parse_optional_exact:
  "map_of opts s = Some a \<Longrightarrow> s \<noteq> [] \<Longrightarrow> hd s = CHR ''-'' \<Longrightarrow>
   parse_optional opts s = Inr (KOpt (Some a) s False None)"
  by (simp add: parse_optional_def)

lemma parse_optional_arg:
  "s = [] \<or> hd s \<noteq> CHR ''-'' \<Longrightarrow> parse_optional opts s = Inr KArg"
  by (auto simp: parse_optional_def)

lemma map_of_build_parser_SomeD:
  "map_of build_parser k = Some a \<Longrightarrow> k \<noteq> [] \<and> hd k = CHR ''-'' \<and> CHR ''='' \<notin> set k \<and> k \<noteq> ''--''"
  using build_parser_keys map_of_SomeD by fast

lemma parse_optional_explicit:
  assumes k: "map_of build_parser k = Some a"
  shows "parse_optional build_parser (k @ CHR ''='' # v) = Inr (KOpt (Some a) k True (Some v))"
proof -
  note kk = map_of_build_parser_SomeD [OF k]
  have none: "map_of build_parser (k @ CHR ''='' # v) = None"
    using build_parser_keys by (force simp: map_of_eq_None_iff)
  have "length (k @ CHR ''='' # v) \<noteq> 1" using kk by simp
  with kk none k show ?thesis
    by (simp add: parse_optional_def py_partition_append)
qed

lemma classify_append:
  "''--'' \<notin> set xs \<Longrightarrow>
   classify opts (xs @ ys) =
     (case classify opts xs of Inl m \<Rightarrow> Inl m
      | Inr ts \<Rightarrow> (case classify opts ys of Inl m \<Rightarrow> Inl m | Inr us \<Rightarrow> Inr (ts @ us)))"
  by (induction xs) (auto split: sum.splits)

lemma explicit_not_dashdash [simp]: "k @ CHR ''='' # x \<noteq> ''--''" "''--'' \<noteq> k @ CHR ''='' # x"
proof -
  have "CHR ''='' \<in> set (k @ CHR ''='' # x)" by simp
  moreover have "CHR ''='' \<notin> set ''--''" by simp
  ultimately show "k @ CHR ''='' # x \<noteq> ''--''" "''--'' \<noteq> k @ CHR ''='' # x" by metis+
qed

lemma classify_opt_arg:
  assumes k: "map_of build_parser k = Some a"
  shows "classify build_parser (opt_arg k v) =
           Inr (case v of None \<Rightarrow> [] | Some x \<Rightarrow> [(k @ CHR ''='' # x, KOpt (Some a) k True (Some x))])"
  using map_of_build_parser_SomeD [OF k] parse_optional_explicit [OF k]
  by (cases v) (auto simp: opt_arg_def)

lemma dashdash_opt_arg: "map_of build_parser k = Some a \<Longrightarrow> ''--'' \<notin> set (opt_arg k v)"
  using map_of_build_parser_SomeD by (cases v) (auto simp: opt_arg_def)

text \<open>C32. Round trip: rendering a namespace as one --option=value argument per option that is set, in any values (empty, starting with a dash, holding = or spaces), and parsing it with the parser build_parser builds gives that namespace back.\<close>
theorem parse_args_render:
  "parse_args build_parser (render_args a) = ParseOk a"
proof -
  have m: "map_of build_parser ''--input-file'' = Some (AStore DInputFile)"
    "map_of build_parser ''--output-file'' = Some (AStore DOutputFile)"
    "map_of build_parser ''--input-dir'' = Some (AStore DInputDir)"
    "map_of build_parser ''--output-dir'' = Some (AStore DOutputDir)"
    by (simp_all add: build_parser_def)
  note cl = classify_opt_arg [OF m(1)] classify_opt_arg [OF m(2)] classify_opt_arg [OF m(3)]
    classify_opt_arg [OF m(4)]
  note dd = dashdash_opt_arg [OF m(1)] dashdash_opt_arg [OF m(2)] dashdash_opt_arg [OF m(3)]
  show ?thesis
    by (cases a; cases "input_file a"; cases "output_file a"; cases "input_dir a"; cases "output_dir a")
       (simp_all add: parse_args_def render_args_def classify_append dd cl empty_namespace_def)
qed

lemma parse_optional_help:
  "parse_optional build_parser ''-h'' = Inr (KOpt (Some AHelp) ''-h'' False None)"
  "parse_optional build_parser ''--help'' = Inr (KOpt (Some AHelp) ''--help'' False None)"
  by (simp_all add: parse_optional_exact build_parser_def)

text \<open>C35. Help first: -h or --help as the first argument prints the help and exits successfully whatever follows, unless a later argument is an ambiguous abbreviation, which argparse rejects before taking any action.\<close>
theorem parse_args_help_first:
  "parse_args build_parser (''-h'' # rest) =
     (case classify build_parser rest of Inl m \<Rightarrow> ParseError m | Inr ts \<Rightarrow> ParseHelp) \<and>
   parse_args build_parser (''--help'' # rest) =
     (case classify build_parser rest of Inl m \<Rightarrow> ParseError m | Inr ts \<Rightarrow> ParseHelp)"
  by (simp add: parse_args_def parse_optional_help split: sum.split)

lemma next_is_arg_snoc:
  "snd t \<noteq> KArg \<Longrightarrow> next_is_arg (ts @ [t]) = next_is_arg ts"
  by (cases ts) (auto simp: next_is_arg_def split: prod.splits kind.splits list.splits)

lemma cluster_next_is_arg:
  "next_is_arg xs = next_is_arg ys \<Longrightarrow> cluster opts xs a k sep e = cluster opts ys a k sep e"
  by (induction opts xs a k sep e rule: cluster.induct) (simp_all split: option.splits action.splits)

lemma consume_snoc_store:
  "consume opts (ts @ [(s, KOpt (Some (AStore d)) k sep (Some v))]) ns ex =
     (case consume opts ts ns ex of ParseOk r \<Rightarrow> ParseOk (set_dest d v r) | r \<Rightarrow> r)"
proof (induction opts ts ns ex rule: consume.induct)
  case (6 opts s' d' k' sep' ts ns extras)
  then show ?case by (cases ts rule: list.exhaust) (auto split: kind.splits prod.splits)
next
  case (8 opts s' k' sep' e ts ns extras)
  have "cluster opts (ts @ [(s, KOpt (Some (AStore d)) k sep (Some v))]) AHelp k' sep' e =
        cluster opts ts AHelp k' sep' e"
    by (rule cluster_next_is_arg) (simp add: next_is_arg_snoc)
  then show ?case by (simp split: sum.splits)
qed simp_all

text \<open>C37. Repeated options: appending --option=value to a command line without a -- separator sets that option to the value and changes nothing else; the last occurrence of an option wins.\<close>
theorem parse_args_last_wins:
  assumes dd: "''--'' \<notin> set argv" and k: "map_of build_parser k = Some (AStore d)"
  shows "parse_args build_parser (argv @ [k @ CHR ''='' # v]) =
           (case parse_args build_parser argv of ParseOk a \<Rightarrow> ParseOk (set_dest d v a) | r \<Rightarrow> r)"
  using parse_optional_explicit [OF k, of v]
  by (simp add: parse_args_def classify_append [OF dd] consume_snoc_store split: sum.split)

lemma consume_raw:
  "consume opts (ts @ (s, KOpt (Some a) k sep e) # us) ns ex =
   consume opts (ts @ (s', KOpt (Some a) k sep e) # us) ns ex"
proof (induction opts ts ns ex rule: consume.induct)
  case (1 opts ns extras)
  show ?case
  proof (cases a)
    case AHelp
    then show ?thesis by (cases e) simp_all
  next
    case (AStore d)
    then show ?thesis by (cases e) simp_all
  qed
next
  case (6 opts s0 d0 k0 sep0 ts ns extras)
  then show ?case by (cases ts rule: list.exhaust) (auto split: kind.splits prod.splits)
next
  case (8 opts s0 k0 sep0 e0 ts ns extras)
  have "cluster opts (ts @ (s, KOpt (Some a) k sep e) # us) AHelp k0 sep0 e0 =
        cluster opts (ts @ (s', KOpt (Some a) k sep e) # us) AHelp k0 sep0 e0"
    by (rule cluster_next_is_arg) (cases ts, simp_all add: next_is_arg_def)
  then show ?case by (simp split: sum.splits)
qed simp_all

lemma abbrev_table:
  "\<forall>(k, a) \<in> set build_parser. \<forall>p \<in> set (prefixes k).
     filter (\<lambda>(k', b). prefix p k') build_parser = [(k, a)] \<longrightarrow>
     parse_optional build_parser p = parse_optional build_parser k"
  by code_simp

lemma parse_optional_abbrev:
  assumes u: "filter (\<lambda>(k', b). prefix p k') build_parser = [(k, a)]"
  shows "parse_optional build_parser p = parse_optional build_parser k"
proof -
  have "(k, a) \<in> set (filter (\<lambda>(k', b). prefix p k') build_parser)" using u by simp
  then have "(k, a) \<in> set build_parser" and "p \<in> set (prefixes k)" by auto
  with abbrev_table u show ?thesis by fast
qed

lemma build_parser_distinct: "distinct (map fst build_parser)"
  by (simp add: build_parser_def)

text \<open>C33. Abbreviations: an argument that is a prefix of exactly one option string of the parser (such as --input-f) parses exactly as that option string does, wherever it stands before a -- separator.\<close>
theorem parse_args_abbrev:
  assumes dd: "''--'' \<notin> set pre" and u: "filter (\<lambda>(k', b). prefix p k') build_parser = [(k, a)]"
  shows "parse_args build_parser (pre @ p # post) = parse_args build_parser (pre @ k # post)"
proof -
  have "(k, a) \<in> set (filter (\<lambda>(k', b). prefix p k') build_parser)" using u by simp
  then have mem: "(k, a) \<in> set build_parser" by simp
  have m: "map_of build_parser k = Some a" by (rule map_of_is_SomeI [OF build_parser_distinct mem])
  have kk: "k \<noteq> [] \<and> hd k = CHR ''-'' \<and> k \<noteq> ''--''" using build_parser_keys [OF mem] by simp
  have pd: "p \<noteq> ''--''"
  proof
    assume "p = ''--''"
    with u show False by (simp add: build_parser_def)
  qed
  have po: "parse_optional build_parser p = Inr (KOpt (Some a) k False None)"
    using parse_optional_abbrev [OF u] parse_optional_exact [OF m] kk by simp
  have ko: "parse_optional build_parser k = Inr (KOpt (Some a) k False None)"
    using parse_optional_exact [OF m] kk by simp
  show ?thesis
    using pd kk po ko consume_raw [of build_parser _ p a k False None]
    by (simp add: parse_args_def classify_append [OF dd] split: sum.split)
qed

lemma build_parser_no_key_prefix:
  "\<forall>(k, a) \<in> set build_parser. filter (\<lambda>(k', b). prefix k k') build_parser = [(k, a)]"
  by (simp add: build_parser_def)

lemma py_partition_absent: "c \<notin> set s \<Longrightarrow> py_partition c s = (s, False, [])"
  by (induction s) (auto simp: py_partition_def)

lemma parse_optional_ambiguous:
  assumes p: "take 2 p = ''--''" "CHR ''='' \<notin> set p"
    and two: "2 \<le> length (filter (\<lambda>(k, b). prefix p k) build_parser)"
  shows "parse_optional build_parser p = Inl (ambiguous_message p (option_tuples build_parser p))"
proof -
  have "length (take 2 p) = 2" using p(1) by simp
  then have len: "2 \<le> length p" by simp
  have hd: "p \<noteq> [] \<and> hd p = CHR ''-'' \<and> p ! 1 = CHR ''-''"
    using p(1) len by (cases p; cases "tl p") auto
  have none: "map_of build_parser p = None"
  proof (rule ccontr)
    assume "map_of build_parser p \<noteq> None"
    then obtain a where "(p, a) \<in> set build_parser" by (auto dest: map_of_SomeD)
    with build_parser_no_key_prefix two show False by fastforce
  qed
  have ot: "option_tuples build_parser p =
              map (\<lambda>(k, a). (a, k, False, None)) (filter (\<lambda>(k, a). prefix p k) build_parser)"
    using hd p(2) by (simp add: option_tuples_def py_partition_absent)
  then have "Suc (Suc 0) \<le> length (option_tuples build_parser p)" using two by simp
  then obtain x y zs where xy: "option_tuples build_parser p = x # y # zs"
    by (metis Suc_le_length_iff)
  show ?thesis
    using hd none len p(2) xy by (simp add: parse_optional_def py_partition_absent)
qed

text \<open>C36. Ambiguous abbreviations are rejected: an argument that is a prefix of two or more option strings (such as --input or --out) ends the parse with argparse's ambiguity message naming the candidates, even after -h.\<close>
theorem parse_args_ambiguous:
  assumes dd: "''--'' \<notin> set pre" and pre: "classify build_parser pre = Inr ts"
    and p: "take 2 p = ''--''" "p \<noteq> ''--''" "CHR ''='' \<notin> set p"
    and two: "2 \<le> length (filter (\<lambda>(k, b). prefix p k) build_parser)"
  shows "parse_args build_parser (pre @ p # post) =
           ParseError (ambiguous_message p (option_tuples build_parser p))"
  using p(2) parse_optional_ambiguous [OF p(1,3) two] pre
  by (simp add: parse_args_def classify_append [OF dd])


text \<open>C34. Entry point: the two documented command lines, --input-file BOOK --output-file TXT and --input-dir IN --output-dir OUT, with values that do not start with a dash, run epub_to_txt on BOOK and TXT, and convert_directory on IN and OUT, and nothing else.\<close>
theorem script_file_mode:
  assumes "v \<noteq> []" "hd v \<noteq> CHR ''-''" "w \<noteq> []" "hd w \<noteq> CHR ''-''"
  shows "script env [''--input-file'', v, ''--output-file'', w] st =
           run_of st (epub_to_txt env (parse_path v) (parse_path w) st) \<and>
         script env [''--input-dir'', v, ''--output-dir'', w] st =
           convert_directory env (parse_path v) (parse_path w) st"
proof -
  have "v \<noteq> ''--''" "w \<noteq> ''--''" using assms by auto
  then show ?thesis
    using assms
    by (simp add: script_def parse_args_def parse_optional_arg parse_optional_exact build_parser_def
        empty_namespace_def main_def truthy_def arg_str_def)
qed

subsection \<open>Witnesses\<close>

theorem parse_args_abbrev_witness:
  "''--'' \<notin> set [''--input-dir'', ''d''] \<and>
   filter (\<lambda>(k', b). prefix ''--input-f'' k') build_parser = [(''--input-file'', AStore DInputFile)] \<and>
   parse_args build_parser ([''--input-dir'', ''d''] @ ''--input-f'' # [''x'']) =
   parse_args build_parser ([''--input-dir'', ''d''] @ ''--input-file'' # [''x''])"
proof -
  have h: "''--'' \<notin> set [''--input-dir'', ''d'']"
    "filter (\<lambda>(k', b). prefix ''--input-f'' k') build_parser = [(''--input-file'', AStore DInputFile)]"
    by (simp_all add: build_parser_def)
  show ?thesis using h parse_args_abbrev [OF h, of "[''x'']"] by simp
qed

theorem script_file_mode_witness:
  "''in'' \<noteq> [] \<and> hd ''in'' \<noteq> CHR ''-'' \<and> ''out'' \<noteq> [] \<and> hd ''out'' \<noteq> CHR ''-'' \<and>
   script demo_env [''--input-file'', ''in'', ''--output-file'', ''out''] batch_fs =
     run_of batch_fs (epub_to_txt demo_env [''in''] [''out''] batch_fs) \<and>
   script demo_env [''--input-dir'', ''in'', ''--output-dir'', ''out''] batch_fs =
     convert_directory demo_env [''in''] [''out''] batch_fs"
  using script_file_mode [of "''in''" "''out''" demo_env batch_fs]
  by (simp add: parse_path_def)

theorem parse_args_ambiguous_witness:
  "classify build_parser [''-h''] = Inr [(''-h'', KOpt (Some AHelp) ''-h'' False None)] \<and>
   parse_args build_parser ([''-h''] @ ''--input'' # [''x'']) =
     ParseError ''ambiguous option: --input could match --input-file, --input-dir''"
proof -
  have h: "''--'' \<notin> set [''-h'']"
    "classify build_parser [''-h''] = Inr [(''-h'', KOpt (Some AHelp) ''-h'' False None)]"
    "take 2 ''--input'' = ''--''" "''--input'' \<noteq> ''--''" "CHR ''='' \<notin> set ''--input''"
    "2 \<le> length (filter (\<lambda>(k, b). prefix ''--input'' k) build_parser)"
    by code_simp+
  have m: "ambiguous_message ''--input'' (option_tuples build_parser ''--input'') =
           ''ambiguous option: --input could match --input-file, --input-dir''"
    by code_simp
  show ?thesis using h parse_args_ambiguous [OF h, of "[''x'']"] m by simp
qed

theorem parse_args_last_wins_witness:
  "''--'' \<notin> set [''--input-file'', ''a''] \<and>
   map_of build_parser ''--input-file'' = Some (AStore DInputFile) \<and>
   parse_args build_parser ([''--input-file'', ''a''] @ [''--input-file'' @ CHR ''='' # ''b'']) =
     (case parse_args build_parser [''--input-file'', ''a''] of
        ParseOk r \<Rightarrow> ParseOk (set_dest DInputFile ''b'' r) | r \<Rightarrow> r)"
proof -
  have h: "''--'' \<notin> set [''--input-file'', ''a'']"
    "map_of build_parser ''--input-file'' = Some (AStore DInputFile)"
    by (simp_all add: build_parser_def)
  show ?thesis using h parse_args_last_wins [OF h, of "''b''"] by simp
qed

end
