(* ===== verification/Spec2Isabelle.thy ===== *)
theory Spec2Isabelle
  imports Argparse
begin

text \<open>
  \<^bold>\<open>A verification development of \<open>src/epub_to_txt.py\<close>\<close>, the EPUB-to-text
  converter.  The program has five parts, composed linearly:
  \<^item> the \<^emph>\<open>spine resolver\<close> \<open>iter_documents_in_order\<close> (lines 32--47) lists the
    document items of a book: those the spine references, in spine order, then the other
    document items in manifest order;
  \<^item> the \<^emph>\<open>gap-preserving normaliser\<close> \<open>clean_text_preserving_gaps\<close> (lines 9--29)
    turns the parsed HTML of one item into a Text Block: empty-line markers become line
    breaks, the text is extracted one string per line, and a flag loop strips the lines and
    collapses runs of blank lines;
  \<^item> the \<^emph>\<open>orchestrator\<close>: \<open>epub_to_txt\<close> (lines 49--61) reads a book, normalises
    every resolved item, joins the blocks with a blank line and writes the text;
    \<open>convert_directory\<close> (lines 64--83) does so for every \<open>.epub\<close> file of a
    directory, in sorted order;
  \<^item> the \<^emph>\<open>command line\<close> \<open>main\<close> (lines 97--119) checks that exactly one complete
    pair of options is given and dispatches to one of the two;
  \<^item> the \<^emph>\<open>argument parser\<close> \<open>build_parser\<close> (lines 86--94) and argparse's
    \<open>parse_args\<close> (line 99) turn \<open>sys.argv\<close> into the namespace \<open>main\<close> reads; the
    \<open>__main__\<close> guard (lines 122--123) runs \<open>main\<close>.

  \<^bold>\<open>Theories.\<close>
  \<^item> \<open>Prelude\<close>: the \<open>py_error\<close> exceptions, the \<open>path\<close> type (a list of
    components), generic lemmas on \<open>dropWhile\<close> and \<open>distinct\<close>.
  \<^item> \<open>Py_Str\<close>: the Python string operations the code calls (\<open>isspace\<close>,
    \<open>strip\<close>, \<open>splitlines\<close>, \<open>join\<close>, \<open>lower\<close>) as CPython defines them on the
    code points U+0000..U+00FF that \<open>char\<close> represents; lemmas: \<open>strip\<close> returns a
    stripped string and is the identity on one, \<open>splitlines\<close> inverts \<open>"\n".join\<close> on
    lines without line boundaries whose last line is not empty.
  \<^item> \<open>Soup\<close>: the part of the BeautifulSoup tree the normaliser observes (text strings,
    skipped strings such as comments, elements with their classes); \<open>mark_spacers\<close> is
    lines 11--12, \<open>get_text\<close> line 14.
  \<^item> \<open>Normalizer\<close>: the loop state (\<open>cleaned\<close>, \<open>previous_blank\<close>) as the record
    \<open>clean_state\<close>, one \<open>clean_step\<close> per iteration (lines 19--27), \<open>clean_lines\<close>
    the loop, \<open>normalize_text\<close> lines 15--29 and \<open>clean_text_preserving_gaps\<close> the
    whole function.  \<open>clean_lines_spec\<close> is the spec's description of the loop; the
    loop refines it (\<open>clean_loop_refines_spec\<close>).  \<open>text_block\<close> is the Text Block
    invariant of spec section 3; every output satisfies it, is idempotent, and is exactly
    its list of lines.  A marker between two paragraphs yields one blank line, and a
    whitespace-only text node yields the same.  A document normalises to the empty text
    exactly when all it extracts is whitespace, and the normalised text is never longer
    than the raw text (\<open>normalize_text_shorter\<close>).
  \<^item> \<open>Spine\<close>: the package (spine entries, items) and the resolver, with
    \<open>seen_ids\<close> threaded through \<open>spine_pass\<close>; lemmas: the exact id sequence the
    resolver yields, completeness (the set of ids), exactly-once under unique ids and a
    spine without repeated documents (multiset equality), and a spine with a repeated
    document yielding it twice.
  \<^item> \<open>Pathlib\<close>: a file-system record (directories, files with contents, printed
    messages) and the operations on it: \<open>read_file\<close>, \<open>write_file\<close> and
    \<open>os_mkdir\<close> share the kernel's walk of the ancestors (\<open>ancestor_error\<close>: the
    first ancestor that is a file raises \<open>NotADirectoryError\<close>, the first missing one
    \<open>FileNotFoundError\<close>) before they look at the path itself; \<open>mkdir_parents\<close> (line 71, \<open>mkdir(parents=True, exist_ok=True)\<close>
    by structural recursion), \<open>path_mkdir\<close> (pathlib's own recursive \<open>Path.mkdir\<close>,
    a \<^theory_text>\<open>partial_function (option)\<close>), \<open>iterdir\<close>,
    \<open>path_suffix\<close>/\<open>path_stem\<close>/\<open>path_parent\<close>, \<open>path_str\<close>; lemmas: each
    operation keeps the file system well formed (\<open>fs_ok\<close>), in a well-formed file
    system the walk fails only at the parent, \<open>mkdir\<close> only appends
    directories, and \<open>path_mkdir\<close> terminates and equals \<open>mkdir_parents\<close>.
  \<^item> \<open>Convert\<close>: over that file system, \<open>epub_to_txt\<close>,
    \<open>convert_all\<close> (the loop of lines 81--83) and \<open>convert_directory\<close>.  The EPUB
    reader and the HTML parser are fields of the record \<open>collab\<close>, so every theorem
    holds for any reader and parser.  \<open>epub_to_txt\<close> returns \<open>py_error + fs\<close>; the
    batch functions return the file system together with the exception that stopped
    them, since files written before it stay on disk.  Lemmas: well-formedness of the
    file system (\<open>fs_ok\<close>) is kept by every operation; the result of a successful
    conversion; each error path, the write errors (a directory target, a target under a
    file, a target in a missing directory) included; the batch example of the spec;
    collisions of outputs;
    the frame of a batch run (no file outside the output directory changes, no directory
    disappears); a run without exception converts and reports every selected file; every
    target path lies in the output directory with suffix \<open>.txt\<close> and the book's stem.
  \<^item> \<open>Cli\<close>: \<open>main\<close> over the namespace of the four options (\<open>cli_args\<close>, as
    \<open>build_parser\<close> declares them), with Python truthiness (\<open>truthy\<close>) and
    \<open>parser.error\<close> as \<open>UsageError\<close>; lemmas: a usage error happens exactly when
    the arguments are not one complete pair, has no effect, and otherwise \<open>main\<close> is
    \<open>epub_to_txt\<close> or \<open>convert_directory\<close>.
  \<^item> \<open>Argparse\<close>: the option table \<open>build_parser\<close> (\<open>-h\<close>/\<open>--help\<close> from
    \<open>add_help\<close>, the four store actions) and \<open>parse_args\<close> as CPython 3.11's
    \<open>argparse.py\<close> implements it for that table: \<open>classify\<close> is the first loop of
    \<open>_parse_known_args\<close> over \<open>parse_optional\<close> (\<open>_parse_optional\<close>, with
    \<open>option_tuples\<close> for abbreviations and the negative-number pattern),
    \<open>consume\<close> the second loop with \<open>consume_optional\<close> (\<open>cluster\<close> for
    single-dash clusters such as \<open>-hh\<close>), then the unrecognized-arguments test.
    \<open>script\<close> is the entry point: help prints \<open>MsgHelp\<close> and exits 0, a parse
    error is the usage error, otherwise \<open>main\<close> runs.  Lemmas: rendering a namespace
    as \<open>--option=value\<close> arguments and parsing it is the identity; a unique
    abbreviation parses as its option; an ambiguous one is rejected before any action,
    even \<open>-h\<close>; help as first argument wins over every later error but ambiguity;
    the last occurrence of an option wins; the two documented command lines run
    \<open>epub_to_txt\<close> and \<open>convert_directory\<close>.
  \<^item> this theory: the Converted Document (\<open>join_blocks\<close>,
    \<open>document_blocks\<close>): with non-empty blocks the book's lines are the blocks' lines
    separated by one blank line and form a text block; an empty document breaks this.

  \<^bold>\<open>Termination, bounds.\<close> Every function is total and executable: the
  recursions are structural or decrease the length of a string or path
  (\<open>splitlines_from\<close>, \<open>mkdir_parents\<close>, \<open>ancestor_error\<close>, \<open>cluster\<close>,
  found by \<^theory_text>\<open>fun\<close>); no loop of the program can run forever, so no fuel is
  used.  The one recursion whose termination is not structural in the source,
  pathlib's \<open>Path.mkdir\<close> retrying through \<open>self.parent\<close> until
  \<open>self.parent == self\<close>, is kept in that form as \<open>path_mkdir\<close>
  (\<^theory_text>\<open>partial_function (option)\<close>, \<open>None\<close> for a call that never returns),
  and \<open>path_mkdir_terminates\<close> proves that it returns on every input.
  Python's integers do not occur beyond indices, which are \<open>nat\<close>.

  \<^bold>\<open>Not modelled.\<close> The layout of argparse's help and usage text (\<open>MsgHelp\<close>
  stands for the help, and a parse error carries only its message), and the parts of
  argparse this parser does not use (positionals, \<open>fromfile_prefix_chars\<close>,
  mutually exclusive groups); the internals of ebooklib's \<open>read_epub\<close> (zip and OPF
  parsing: only the spine and item list it returns, and its failure as
  \<open>EpubReadError\<close>) and of BeautifulSoup's \<open>html.parser\<close> tree builder (only the
  tree it returns).  Both are third-party libraries outside the repository that the
  program only calls; what it observes of them, the package and the tree, is modelled,
  and every theorem holds for any reader and parser (the record \<open>collab\<close>), so the
  EPUB reader stays unmodelled and the HTML tree is modelled only as far as
  \<open>select\<close>, the \<open>string\<close> setter and \<open>get_text\<close> see it.  Text encodings
  (strings are lists of code points below U+0100, so U+2028/U+2029, the Unicode spaces
  above U+00FF and the arrow U+2192 of the confirmation message are outside the model);
  the exact text of the confirmation messages (the \<open>message\<close> datatype records which
  message is printed and with which paths; in single-file mode Python prints the two
  argument strings as given, the model the paths they parse to); permissions, symbolic
  links and \<open>..\<close> resolution in the file system.

  \<^bold>\<open>Open directions.\<close> A trace-level statement of batch mode (which files exist
  after each step); the \<open>linear\<close> attribute of spine entries; the normaliser's
  properties for trees with several and nested markers.
\<close>

section \<open>Properties spanning the components\<close>

subsection \<open>The converted document\<close>

text \<open>The Converted Document of the spec: the text blocks of the documents, in the
  resolver's order, joined by one blank line (\<open>"\n\n".join\<close> at line 59).\<close>

fun join_blocks :: "string list list \<Rightarrow> string list" where
  "join_blocks [] = []"
| "join_blocks [b] = b"
| "join_blocks (b # c # bs) = b @ [] # join_blocks (c # bs)"

definition document_blocks :: "collab \<Rightarrow> package \<Rightarrow> string list" where
  "document_blocks env book =
     map (\<lambda>it. clean_text_preserving_gaps (parse_html env (item_content it))) (iter_documents_in_order book)"


lemma py_join_append:
  "xs \<noteq> [] \<Longrightarrow> ys \<noteq> [] \<Longrightarrow> py_join sep (xs @ ys) = py_join sep xs @ sep @ py_join sep ys"
  by (induction sep xs rule: py_join.induct) (auto simp: py_join_Cons)

lemma join_blocks_nonempty: "bs \<noteq> [] \<Longrightarrow> \<forall>b\<in>set bs. b \<noteq> [] \<Longrightarrow> join_blocks bs \<noteq> []"
  by (induction bs rule: join_blocks.induct) auto

lemma py_join_join_blocks:
  "\<forall>b\<in>set bs. b \<noteq> [] \<Longrightarrow>
   py_join ''\<newline>'' (join_blocks bs) = py_join ''\<newline>\<newline>'' (map (py_join ''\<newline>'') bs)"
proof (induction bs rule: join_blocks.induct)
  case (3 b c bs)
  have ne: "join_blocks (c # bs) \<noteq> []" using "3.prems" by (intro join_blocks_nonempty) auto
  have "py_join ''\<newline>'' (b @ [] # join_blocks (c # bs)) =
        py_join ''\<newline>'' b @ ''\<newline>'' @ py_join ''\<newline>'' ([] # join_blocks (c # bs))"
    using "3.prems" by (simp add: py_join_append)
  also have "\<dots> = py_join ''\<newline>'' b @ ''\<newline>\<newline>'' @ py_join ''\<newline>'' (join_blocks (c # bs))"
    using ne by (simp add: py_join_Cons)
  finally show ?case using "3.IH" "3.prems" by simp
qed simp_all

lemma no_double_blank_append:
  "no_double_blank (xs @ ys) \<longleftrightarrow>
     no_double_blank xs \<and> no_double_blank ys \<and> \<not> (xs \<noteq> [] \<and> ys \<noteq> [] \<and> last xs = [] \<and> hd ys = [])"
  by (induction xs rule: no_double_blank.induct) (auto simp: no_double_blank_Cons)

lemma text_block_join_blocks:
  "\<forall>b\<in>set bs. b \<noteq> [] \<and> text_block b \<Longrightarrow> text_block (join_blocks bs)"
proof (induction bs rule: join_blocks.induct)
  case (3 b c bs)
  then have tb: "text_block b" "b \<noteq> []" and tr: "text_block (join_blocks (c # bs))"
    and ne: "join_blocks (c # bs) \<noteq> []"
    using join_blocks_nonempty [of "c # bs"] by auto
  have e: "is_stripped []" "no_linebreak []" by (simp_all add: is_stripped_def no_linebreak_def)
  from tb tr ne e show ?case
    by (auto simp: text_block_def no_double_blank_append no_double_blank_Cons)
qed (auto simp: text_block_def)

lemma clean_text_lines:
  "text_block (py_splitlines (clean_text_preserving_gaps soup)) \<and>
   clean_text_preserving_gaps soup = py_join ''\<newline>'' (py_splitlines (clean_text_preserving_gaps soup))"
  using block_lines_text_block
  by (simp add: splitlines_clean_text) (simp add: clean_text_preserving_gaps_def normalize_text_join)

lemma book_text_blocks: "book_text env book = py_join ''\<newline>\<newline>'' (document_blocks env book)"
  by (simp add: book_text_def document_blocks_def)

text \<open>C12. Converted Document: when no resolved document normalises to the empty text, the lines of the converted book are the lines of the documents' text blocks in resolver order, separated by exactly one blank line, and together they again form a text block (no double blank, no blank first or last line).\<close>

theorem converted_document_lines:
  assumes ne: "\<forall>b\<in>set (document_blocks env book). b \<noteq> []"
  shows "py_splitlines (book_text env book) = join_blocks (map py_splitlines (document_blocks env book)) \<and>
         text_block (py_splitlines (book_text env book))"
proof -
  let ?Bs = "document_blocks env book"
  let ?Ls = "map py_splitlines ?Bs"
  have each: "\<forall>b\<in>set ?Bs. text_block (py_splitlines b) \<and> b = py_join ''\<newline>'' (py_splitlines b)"
    using clean_text_lines by (auto simp: document_blocks_def)
  then have Bs: "map (py_join ''\<newline>'') ?Ls = ?Bs"
    by (simp add: map_idI)
  have Lne: "\<forall>l\<in>set ?Ls. l \<noteq> []"
  proof
    fix l assume "l \<in> set ?Ls"
    then obtain b where b: "b \<in> set ?Bs" "l = py_splitlines b" by auto
    show "l \<noteq> []"
    proof
      assume "l = []"
      with b each have "b = []" by (metis py_join.simps(1))
      with b ne show False by blast
    qed
  qed
  have tb: "text_block (join_blocks ?Ls)"
    using each Lne by (intro text_block_join_blocks) auto
  have "book_text env book = py_join ''\<newline>'' (join_blocks ?Ls)"
    using py_join_join_blocks [OF Lne] Bs by (simp add: book_text_blocks)
  moreover have "py_splitlines (py_join ''\<newline>'' (join_blocks ?Ls)) = join_blocks ?Ls"
    using tb by (intro splitlines_join_LF) (auto simp: text_block_def list_all_iff)
  ultimately show ?thesis using tb by simp
qed


theorem converted_document_lines_witness:
  "document_blocks demo_env abc_book = [''<p>A</p>'', ''<p>B</p>'', ''<p>C</p>''] \<and>
   py_splitlines (book_text demo_env abc_book) = [''<p>A</p>'', [], ''<p>B</p>'', [], ''<p>C</p>'']"
proof -
  have b: "document_blocks demo_env abc_book = [''<p>A</p>'', ''<p>B</p>'', ''<p>C</p>'']" by code_simp
  then have h: "\<forall>b\<in>set (document_blocks demo_env abc_book). b \<noteq> []" by simp
  have j: "join_blocks (map py_splitlines (document_blocks demo_env abc_book)) =
           [''<p>A</p>'', [], ''<p>B</p>'', [], ''<p>C</p>'']" by code_simp
  show ?thesis using b j converted_document_lines [OF h] by simp
qed

end
